theory Spec2Isabelle
  imports Main "HOL-Library.Word"
begin

section \<open>JavaScript values and errors\<close>

text \<open>
  The engine builds its effects as dynamically shaped JavaScript objects. The values that
  decoded contract data can put into an effect field are modelled by \<open>jsval\<close>: a missing
  field reads as \<open>JUndefined\<close>, as a missing property does in JavaScript.
\<close>

datatype jsval = JUndefined | JNull | JStr string | JArr "jsval list"

text \<open>
  Contract values (XDR \<^verbatim>\<open>ScVal\<close>) as events carry them: the arms that topics and payloads
  of the call and token events use. A byte string is kept by its two renderings, the
  contract address \<^verbatim>\<open>StrKey.encodeContract\<close> gives for it and its base64 text, since
  these are all the engine reads of it.
\<close>

datatype scval =
    ScvVoid
  | ScvI128 int
  | ScvSymbol string
  | ScvString string
  | ScvAddress string
  | ScvBytes (asContractId: string) (asBase64: string)
  | ScvVec "scval list"

text \<open>Every \<^verbatim>\<open>throw\<close> of the source, and every runtime TypeError it can run into, is a value.\<close>

datatype error =
    TypeError string
  | SyntaxError string
  | NonStandardEvent
  | CheckStateModifications
  | UnexpectedTxMetaChangeError string string
  | TxMetaEffectParserError string

section \<open>Effect kinds\<close>

text \<open>
  Modelled from the spec: the module \<^verbatim>\<open>effect-types\<close> is required by both source files but
  is not part of them. The spec names every effect kind by the key the source uses
  (\<^verbatim>\<open>accountDebited\<close>, \<^verbatim>\<open>liquidityPoolDeposited\<close>, \<^verbatim>\<open>trustlineRemoved\<close>, ...), so the table maps
  each key to itself. Its sponsorship block holds the entity kinds for which the spec (4.3)
  and the source surface a sponsorship effect.
\<close>

definition sponsoredKinds :: "string list" where
  "sponsoredKinds = [''account'', ''trustline'', ''offer'', ''data'', ''claimableBalance'', ''signer'']"

definition effectTypeKeys :: "string list" where
  "effectTypeKeys =
     [''accountCreated'', ''accountRemoved'', ''accountDebited'', ''accountCredited'',
      ''trustlineCreated'', ''trustlineUpdated'', ''trustlineRemoved'',
      ''assetMinted'', ''assetBurned'',
      ''liquidityPoolCreated'', ''liquidityPoolUpdated'', ''liquidityPoolRemoved'',
      ''liquidityPoolDeposited'', ''liquidityPoolWithdrew'',
      ''contractCreated'', ''contractUpdated'', ''contractInvoked'', ''contractEvent'',
      ''contractCodeUploaded'',
      ''contractDataCreated'', ''contractDataUpdated'', ''contractDataRemoved'']
     @ concat (map (\<lambda>k. [k @ ''SponsorshipCreated'', k @ ''SponsorshipUpdated'',
                           k @ ''SponsorshipRemoved'']) sponsoredKinds)"

definition effectTypes :: "string \<Rightarrow> string option" where
  "effectTypes key = (if key \<in> set effectTypeKeys then Some key else None)"

abbreviation accountDebited :: string where "accountDebited \<equiv> ''accountDebited''"
abbreviation accountCredited :: string where "accountCredited \<equiv> ''accountCredited''"
abbreviation assetMinted :: string where "assetMinted \<equiv> ''assetMinted''"
abbreviation assetBurned :: string where "assetBurned \<equiv> ''assetBurned''"
abbreviation trustlineCreated :: string where "trustlineCreated \<equiv> ''trustlineCreated''"
abbreviation trustlineUpdated :: string where "trustlineUpdated \<equiv> ''trustlineUpdated''"
abbreviation trustlineRemoved :: string where "trustlineRemoved \<equiv> ''trustlineRemoved''"
abbreviation liquidityPoolCreated :: string where "liquidityPoolCreated \<equiv> ''liquidityPoolCreated''"
abbreviation liquidityPoolUpdated :: string where "liquidityPoolUpdated \<equiv> ''liquidityPoolUpdated''"
abbreviation liquidityPoolRemoved :: string where "liquidityPoolRemoved \<equiv> ''liquidityPoolRemoved''"
abbreviation liquidityPoolDeposited :: string where "liquidityPoolDeposited \<equiv> ''liquidityPoolDeposited''"
abbreviation liquidityPoolWithdrew :: string where "liquidityPoolWithdrew \<equiv> ''liquidityPoolWithdrew''"
abbreviation contractCreated :: string where "contractCreated \<equiv> ''contractCreated''"
abbreviation contractUpdated :: string where "contractUpdated \<equiv> ''contractUpdated''"
abbreviation contractInvoked :: string where "contractInvoked \<equiv> ''contractInvoked''"
abbreviation contractCodeUploaded :: string where "contractCodeUploaded \<equiv> ''contractCodeUploaded''"
abbreviation contractDataCreated :: string where "contractDataCreated \<equiv> ''contractDataCreated''"
abbreviation contractDataUpdated :: string where "contractDataUpdated \<equiv> ''contractDataUpdated''"
abbreviation contractDataRemoved :: string where "contractDataRemoved \<equiv> ''contractDataRemoved''"

section \<open>Effects and the effect list\<close>

text \<open>
  One record has every field the modelled handlers write. A field the object literal of the
  source does not mention is \<open>None\<close> (or \<open>JUndefined\<close>), which is what reading it gives in
  JavaScript. \<open>result\<close> and \<open>rawArgs\<close> hold the contract values themselves, where the source
  stores their base64 XDR text (each determines the other). \<open>function'\<close> and \<open>value'\<close> are the source's
  \<^verbatim>\<open>function\<close> and \<^verbatim>\<open>value\<close>; a parameter that shares its name with a field is primed too
  (\<open>amount'\<close>, \<open>asset'\<close>).
\<close>

record effect =
  type :: string
  source :: jsval
  asset :: jsval
  amount :: jsval
  balance :: "string option"
  assets :: "(string \<times> string) list option"
  pool :: "string option"
  shares :: "string option"
  reserves :: "(string \<times> string option) list option"
  accounts :: "nat option"
  kind :: "string option"
  flags :: "nat option"
  limit :: "string option"
  sponsor :: "string option"
  contract :: jsval
  function' :: jsval
  args :: jsval
  rawArgs :: "scval list option"
  depth :: "nat option"
  result :: "scval option"
  wasm :: "string option"
  wasmHash :: "string option"
  prevWasmHash :: "string option"
  issuer :: "string option"
  salt :: "string option"
  owner :: "string option"
  key :: "string option"
  value' :: "string option"
  prevValue :: "string option"
  durability :: "string option"

definition emptyEffect :: effect where
  "emptyEffect = \<lparr>type = [], source = JUndefined, asset = JUndefined, amount = JUndefined,
     balance = None, assets = None, pool = None, shares = None, reserves = None,
     accounts = None, kind = None, flags = None, limit = None, sponsor = None,
     contract = JUndefined, function' = JUndefined, args = JUndefined, rawArgs = None,
     depth = None, result = None, wasm = None, wasmHash = None, prevWasmHash = None,
     issuer = None, salt = None, owner = None, key = None,
     value' = None, prevValue = None, durability = None\<rparr>"

text \<open>
  The engine: \<open>opSource\<close> is \<^verbatim>\<open>this.source\<close> (the operation source, non-empty by the
  constructor's check), \<open>effects\<close> is \<^verbatim>\<open>this.effects\<close>.
\<close>

record EffectsAnalyzer =
  effects :: "effect list"
  opSource :: string

text \<open>\<^verbatim>\<open>!effect.source\<close>: undefined, null and the empty string are falsy.\<close>

fun falsy :: "jsval \<Rightarrow> bool" where
  "falsy JUndefined = True"
| "falsy JNull = True"
| "falsy (JStr s) = (s = [])"
| "falsy (JArr xs) = False"

text \<open>
  \<^verbatim>\<open>addEffect(effect, atPosition)\<close>. \<^verbatim>\<open>splice(i, 0, effect)\<close> inserts before index \<open>i\<close> and
  clamps \<open>i\<close> to the length of the array, as \<open>take\<close> and \<open>drop\<close> do.
\<close>

definition addEffect :: "effect \<Rightarrow> int option \<Rightarrow> EffectsAnalyzer \<Rightarrow> EffectsAnalyzer" where
  "addEffect effect atPosition this =
     (let effect = (if falsy (source effect) then effect\<lparr>source := JStr (opSource this)\<rparr> else effect)
      in case atPosition of
           Some p \<Rightarrow>
             (let i = (if p < 0 then 0 else nat p)
              in this\<lparr>effects := take i (effects this) @ [effect] @ drop i (effects this)\<rparr>)
         | None \<Rightarrow> this\<lparr>effects := effects this @ [effect]\<rparr>)"

definition setBalance :: "string option \<Rightarrow> effect \<Rightarrow> effect" where
  "setBalance b effect = (case b of None \<Rightarrow> effect | Some v \<Rightarrow> effect\<lparr>balance := Some v\<rparr>)"

definition debit :: "string \<Rightarrow> string \<Rightarrow> string \<Rightarrow> string option \<Rightarrow> EffectsAnalyzer \<Rightarrow> EffectsAnalyzer" where
  "debit amount' asset' source' balance' this =
     (if amount' = ''0'' then this
      else addEffect (setBalance balance'
             (emptyEffect\<lparr>type := accountDebited, source := JStr source', asset := JStr asset',
                amount := JStr amount'\<rparr>)) None this)"

definition credit :: "string \<Rightarrow> string \<Rightarrow> string \<Rightarrow> string option \<Rightarrow> EffectsAnalyzer \<Rightarrow> EffectsAnalyzer" where
  "credit amount' asset' source' balance' this =
     (if amount' = ''0'' then this
      else addEffect (setBalance balance'
             (emptyEffect\<lparr>type := accountCredited, source := JStr source', asset := JStr asset',
                amount := JStr amount'\<rparr>)) None this)"

text \<open>\<^verbatim>\<open>Array.prototype.findIndex\<close>: the index of the first match, or \<open>-1\<close>.\<close>

fun findIndex :: "('a \<Rightarrow> bool) \<Rightarrow> 'a list \<Rightarrow> int" where
  "findIndex P [] = -1"
| "findIndex P (x # xs) =
     (if P x then 0 else (let i = findIndex P xs in if i < 0 then -1 else i + 1))"

definition mint :: "string \<Rightarrow> string \<Rightarrow> bool \<Rightarrow> EffectsAnalyzer \<Rightarrow> EffectsAnalyzer" where
  "mint asset' amount' autoLookupPosition this =
     (let position =
            (if autoLookupPosition
             then Some (findIndex (\<lambda>e. asset e = JStr asset' \<or>
                     (case assets e of None \<Rightarrow> False
                      | Some as \<Rightarrow> find (\<lambda>a. fst a = asset') as \<noteq> None)) (effects this))
             else None)
      in addEffect (emptyEffect\<lparr>type := assetMinted, asset := JStr asset', amount := JStr amount'\<rparr>)
           position this)"

definition burn :: "string \<Rightarrow> string \<Rightarrow> int option \<Rightarrow> EffectsAnalyzer \<Rightarrow> EffectsAnalyzer" where
  "burn asset' amount' position this =
     addEffect (emptyEffect\<lparr>type := assetBurned, asset := JStr asset', amount := JStr amount'\<rparr>)
       position this"

section \<open>Decimal strings, BigInt and Number\<close>

text \<open>
  Ledger amounts reach the engine as decimal strings (the engine compares them with
  \<^verbatim>\<open>'0'\<close>, passes them to \<^verbatim>\<open>BigInt\<close> and copies them into effects). \<open>bigIntToString\<close> is
  \<^verbatim>\<open>BigInt.prototype.toString\<close>: the canonical decimal rendering.
\<close>

definition digitChar :: "nat \<Rightarrow> char" where
  "digitChar d = ''0123456789'' ! d"

fun natToString :: "nat \<Rightarrow> string" where
  "natToString n = (if n < 10 then [digitChar n] else natToString (n div 10) @ [digitChar (n mod 10)])"

declare natToString.simps [simp del]

definition bigIntToString :: "int \<Rightarrow> string" where
  "bigIntToString i = (if i < 0 then CHR ''-'' # natToString (nat (- i)) else natToString (nat i))"

definition digitVal :: "char \<Rightarrow> nat option" where
  "digitVal c = map_of (zip ''0123456789'' [0, 1, 2, 3, 4, 5, 6, 7, 8, 9]) c"

fun digitsValue :: "nat \<Rightarrow> string \<Rightarrow> nat option" where
  "digitsValue acc [] = Some acc"
| "digitsValue acc (c # cs) =
     (case digitVal c of None \<Rightarrow> None | Some d \<Rightarrow> digitsValue (10 * acc + d) cs)"

text \<open>
  A decimal integer literal: an optional sign and at least one digit, or the empty string
  (which both \<^verbatim>\<open>BigInt\<close> and \<^verbatim>\<open>Number\<close> read as zero). This is the syntax of
  the strings the ledger decoder and \<open>bigIntToString\<close> produce; the other literals that
  JavaScript accepts (surrounding white space, radix prefixes, fractions and exponents for
  \<^verbatim>\<open>Number\<close>) do not occur in amounts and are not modelled: on them the model takes the
  branch of an unreadable literal, also where JavaScript would read one (\<^verbatim>\<open>'1e3'\<close> is the
  Number 1000 and no BigInt; the model reads it as neither). Every statement below about
  amounts is about decimal integer literals.
\<close>

definition decimalLiteral :: "string \<Rightarrow> int option" where
  "decimalLiteral s =
     (case s of
        [] \<Rightarrow> Some 0
      | c # cs \<Rightarrow>
          if c = CHR ''-'' then (if cs = [] then None else map_option (\<lambda>n. - int n) (digitsValue 0 cs))
          else if c = CHR ''+'' then (if cs = [] then None else map_option int (digitsValue 0 cs))
          else map_option int (digitsValue 0 s))"

text \<open>\<^verbatim>\<open>BigInt(s)\<close> throws a SyntaxError on a string that is not an integer literal.\<close>

definition BigInt :: "string \<Rightarrow> error + int" where
  "BigInt s = (case decimalLiteral s of None \<Rightarrow> Inl (SyntaxError s) | Some i \<Rightarrow> Inr i)"

text \<open>
  A JavaScript \<^verbatim>\<open>Number\<close> is an IEEE 754 binary64 value. The arithmetic operators applied to
  amount strings convert them with \<^verbatim>\<open>ToNumber\<close> first, so the values that arise are NaN and
  integer-valued doubles; \<open>Num v\<close> is the double whose value is the integer \<open>v\<close>.
  \<open>roundDouble\<close> rounds an integer to the nearest double, ties to the even significand: an
  integer below \<open>2^53\<close> in magnitude is a double already, a larger one keeps its 53 leading
  bits. (Amounts are 64-bit, far below the overflow threshold of binary64.)
\<close>

datatype number = NaN | Num int

fun bitLength :: "nat \<Rightarrow> nat" where
  "bitLength n = (if n = 0 then 0 else Suc (bitLength (n div 2)))"

declare bitLength.simps [simp del]

definition roundDoubleNat :: "nat \<Rightarrow> nat" where
  "roundDoubleNat n =
     (if n < 2 ^ 53 then n
      else let e = bitLength n - 53;
               q = n div 2 ^ e;
               r = n mod 2 ^ e;
               half = 2 ^ (e - 1)
           in (if r > half \<or> (r = half \<and> odd q) then q + 1 else q) * 2 ^ e)"

definition roundDouble :: "int \<Rightarrow> int" where
  "roundDouble i = (if i < 0 then - int (roundDoubleNat (nat (- i))) else int (roundDoubleNat (nat i)))"

definition ToNumber :: "string \<Rightarrow> number" where
  "ToNumber s = (case decimalLiteral s of None \<Rightarrow> NaN | Some i \<Rightarrow> Num (roundDouble i))"

text \<open>\<^verbatim>\<open>a - b\<close> on strings: both operands through \<^verbatim>\<open>ToNumber\<close>, the exact difference rounded.\<close>

fun numberMinus :: "number \<Rightarrow> number \<Rightarrow> number" where
  "numberMinus (Num a) (Num b) = Num (roundDouble (a - b))"
| "numberMinus _ _ = NaN"

definition jsMinus :: "string \<Rightarrow> string \<Rightarrow> number" where
  "jsMinus a b = numberMinus (ToNumber a) (ToNumber b)"

text \<open>\<^verbatim>\<open>s > 0\<close> on a string: \<^verbatim>\<open>ToNumber(s) > 0\<close>, false for NaN.\<close>

definition greaterThanZero :: "string \<Rightarrow> bool" where
  "greaterThanZero s = (case ToNumber s of NaN \<Rightarrow> False | Num v \<Rightarrow> v > 0)"

text \<open>
  \<^verbatim>\<open>Number.prototype.toString\<close> (ECMA-262, Number::toString, radix 10) prints the shortest
  digit string \<open>s\<close> (with \<open>k\<close> digits) such that \<open>s * 10^(n - k)\<close> still rounds to the number,
  followed by \<open>n - k\<close> zeros, where \<open>n\<close> is the number of digits of the integer part; among
  several \<open>s\<close> of that length the one closest to the number. From \<open>10^21\<close> on the exponent
  form is used.
\<close>

definition digitCandidates :: "nat \<Rightarrow> nat \<Rightarrow> nat \<Rightarrow> nat list" where
  "digitCandidates v n k =
     (let scale = 10 ^ (n - k);
          lo = v div scale;
          hi = lo + 1;
          okLo = (roundDoubleNat (lo * scale) = v);
          okHi = (hi < 10 ^ k \<and> roundDoubleNat (hi * scale) = v)
      in if okLo \<and> okHi then (if v - lo * scale \<le> hi * scale - v then [lo] else [hi])
         else if okLo then [lo]
         else if okHi then [hi]
         else [])"

fun shortestDigits :: "nat \<Rightarrow> nat \<Rightarrow> nat list \<Rightarrow> nat \<times> nat" where
  "shortestDigits v n [] = (v, n)"
| "shortestDigits v n (k # ks) =
     (case digitCandidates v n k of [] \<Rightarrow> shortestDigits v n ks | s # _ \<Rightarrow> (s, k))"

definition natNumberToString :: "nat \<Rightarrow> string" where
  "natNumberToString v =
     (if v = 0 then ''0''
      else let n = length (natToString v);
               (s, k) = shortestDigits v n [1..<Suc n];
               ds = natToString s
           in if n \<le> 21 then ds @ replicate (n - k) CHR ''0''
              else (if k = 1 then ds else take 1 ds @ ''.'' @ drop 1 ds) @ ''e+'' @ natToString (n - 1))"

fun numberToString :: "number \<Rightarrow> string" where
  "numberToString NaN = ''NaN''"
| "numberToString (Num v) =
     (if v < 0 then CHR ''-'' # natNumberToString (nat (- v)) else natNumberToString (nat v))"

section \<open>Ledger entry changes\<close>

text \<open>
  A change is \<^verbatim>\<open>{type, action, before, after}\<close>; \<open>before\<close> and \<open>after\<close> may be absent, and
  reading a field of an absent snapshot is a TypeError. The snapshot fields carry a prefix
  (\<open>tl\<close>, \<open>lp\<close>, \<open>c\<close>) where the effect record has a field of the same name.
\<close>

record 's change =
  action :: string
  before :: "'s option"
  after :: "'s option"

record trustline =
  tlAccount :: string
  tlAsset :: string
  tlBalance :: string
  tlLimit :: string
  tlFlags :: nat
  tlSponsor :: "string option"

record liquidityPool =
  lpPool :: string
  lpAsset :: "string list"
  lpAmount :: "string list"
  lpShares :: string
  lpAccounts :: nat
  lpSponsor :: "string option"

record contractEntry =
  cContract :: string
  cKind :: string
  cHash :: "string option"
  cStorage :: "(string \<times> string) list option"

datatype ledgerChange =
    TrustlineChange "trustline change"
  | LiquidityPoolChange "liquidityPool change"
  | ContractChange "contractEntry change"
  | OtherChange string string

text \<open>The part of the engine's context that the operation handlers read.\<close>

record OperationContext =
  liquidityPoolId :: string
  changes :: "ledgerChange list"

text \<open>\<^verbatim>\<open>xs[i]\<close>: \<^verbatim>\<open>undefined\<close> (here \<open>None\<close>) beyond the end of the array.\<close>

definition nthOpt :: "'a list \<Rightarrow> nat \<Rightarrow> 'a option" where
  "nthOpt xs i = (if i < length xs then Some (xs ! i) else None)"

text \<open>\<^verbatim>\<open>after || before\<close>\<close>

definition orElse :: "'a option \<Rightarrow> 'a option \<Rightarrow> 'a option" where
  "orElse a b = (case a of Some x \<Rightarrow> Some x | None \<Rightarrow> b)"

text \<open>A sponsor is copied only when it is truthy: present and not the empty string.\<close>

definition setSponsor :: "string option \<Rightarrow> effect \<Rightarrow> effect" where
  "setSponsor sp effect =
     (case sp of None \<Rightarrow> effect | Some v \<Rightarrow> if v = [] then effect else effect\<lparr>sponsor := Some v\<rparr>)"

subsection \<open>Trustlines\<close>

definition processBalanceChange ::
    "string \<Rightarrow> string \<Rightarrow> string \<Rightarrow> string \<Rightarrow> EffectsAnalyzer \<Rightarrow> error + EffectsAnalyzer" where
  "processBalanceChange account asset' beforeBalance afterBalance this =
     (case BigInt afterBalance of
        Inl e \<Rightarrow> Inl e
      | Inr a \<Rightarrow>
          (case BigInt beforeBalance of
             Inl e \<Rightarrow> Inl e
           | Inr b \<Rightarrow>
               (let balanceChange = a - b
                in if balanceChange < 0
                   then Inr (debit (bigIntToString (- balanceChange)) asset' account (Some afterBalance) this)
                   else Inr (credit (bigIntToString balanceChange) asset' account (Some afterBalance) this))))"

text \<open>\<^verbatim>\<open>snapshot.asset.includes('-')\<close>\<close>

definition includesDash :: "string \<Rightarrow> bool" where
  "includesDash s = (CHR ''-'' \<in> set s)"

text \<open>The object \<^verbatim>\<open>trustEffect\<close> as the handler builds it before the \<^verbatim>\<open>switch\<close>.\<close>

definition trustEffectOf :: "trustline \<Rightarrow> effect" where
  "trustEffectOf snapshot =
     setSponsor (tlSponsor snapshot)
       (emptyEffect\<lparr>type := [], source := JStr (tlAccount snapshot),
          asset := JStr (tlAsset snapshot),
          kind := Some (if includesDash (tlAsset snapshot) then ''asset'' else ''poolShares''),
          flags := Some (tlFlags snapshot)\<rparr>)"

definition processTrustlineEffectsChanges ::
    "trustline change \<Rightarrow> EffectsAnalyzer \<Rightarrow> error + EffectsAnalyzer" where
  "processTrustlineEffectsChanges ch this =
     (case orElse (after ch) (before ch) of
        None \<Rightarrow> Inl (TypeError ''snapshot is undefined'')
      | Some snapshot \<Rightarrow>
          (let trustEffect = trustEffectOf snapshot
           in if action ch = ''created'' then
                Inr (addEffect (trustEffect\<lparr>type := trustlineCreated, limit := Some (tlLimit snapshot)\<rparr>)
                       None this)
              else if action ch = ''updated'' then
                (case (before ch, after ch) of
                   (Some b, Some a) \<Rightarrow>
                     (case (if tlBalance b \<noteq> tlBalance a
                            then processBalanceChange (tlAccount a) (tlAsset a) (tlBalance b) (tlBalance a) this
                            else Inr this) of
                        Inl e \<Rightarrow> Inl e
                      | Inr this' \<Rightarrow>
                          if tlLimit b = tlLimit a \<and> tlFlags b = tlFlags a then Inr this'
                          else Inr (addEffect (trustEffect\<lparr>type := trustlineUpdated,
                                       limit := Some (tlLimit snapshot)\<rparr>) None this'))
                 | _ \<Rightarrow> Inl (TypeError ''before or after is undefined''))
              else if action ch = ''removed'' then
                (case before ch of
                   None \<Rightarrow> Inl (TypeError ''before is undefined'')
                 | Some b \<Rightarrow>
                     (case (if greaterThanZero (tlBalance b)
                            then processBalanceChange (tlAccount b) (tlAsset b) (tlBalance b) ''0'' this
                            else Inr this) of
                        Inl e \<Rightarrow> Inl e
                      | Inr this' \<Rightarrow> Inr (addEffect (trustEffect\<lparr>type := trustlineRemoved\<rparr>) None this')))
              else Inr (addEffect trustEffect None this)))"

subsection \<open>Liquidity pools\<close>

definition processLiquidityPoolChanges ::
    "liquidityPool change \<Rightarrow> EffectsAnalyzer \<Rightarrow> error + EffectsAnalyzer" where
  "processLiquidityPoolChanges ch this =
     (case orElse (after ch) (before ch) of
        None \<Rightarrow> Inl (TypeError ''snapshot is undefined'')
      | Some snapshot \<Rightarrow>
          (let effect = setSponsor (lpSponsor snapshot)
                 (emptyEffect\<lparr>type := liquidityPoolRemoved, pool := Some (lpPool snapshot)\<rparr>)
           in if action ch = ''created'' then
                (case after ch of
                   None \<Rightarrow> Inl (TypeError ''after is undefined'')
                 | Some a \<Rightarrow>
                     (let effect = effect\<lparr>type := liquidityPoolCreated,
                            reserves := Some (map (\<lambda>asset'. (asset', Some ''0'')) (lpAsset a)),
                            shares := Some ''0'', accounts := Some 1\<rparr>
                      in Inr (addEffect effect
                                (Some (findIndex (\<lambda>e. pool e = pool effect \<or>
                                                        asset e = JStr (lpPool snapshot)) (effects this)))
                                this)))
              else if action ch = ''updated'' then
                (case after ch of
                   None \<Rightarrow> Inl (TypeError ''after is undefined'')
                 | Some a \<Rightarrow>
                     Inr (addEffect (effect\<lparr>type := liquidityPoolUpdated,
                            reserves := Some (map (\<lambda>(i, asset').
                                (asset', nthOpt (lpAmount a) i))
                              (enumerate 0 (lpAsset a))),
                            shares := Some (lpShares a), accounts := Some (lpAccounts a)\<rparr>) None this))
              else Inr (addEffect effect None this)))"

text \<open>
  \<^verbatim>\<open>this.changes.find(ch => ch.type === 'liquidityPool' && ch.action === 'updated' &&
  ch.after.pool === id)\<close> (the withdraw handler reads \<^verbatim>\<open>ch.before.pool\<close>): the first match, or
  nothing; the predicate itself throws on an updated pool change without that snapshot.
\<close>

fun findPoolChange ::
    "(liquidityPool change \<Rightarrow> liquidityPool option) \<Rightarrow> string \<Rightarrow> ledgerChange list
       \<Rightarrow> error + liquidityPool change option" where
  "findPoolChange side poolId [] = Inr None"
| "findPoolChange side poolId (LiquidityPoolChange ch # rest) =
     (if action ch = ''updated'' then
        (case side ch of
           None \<Rightarrow> Inl (TypeError ''snapshot is undefined'')
         | Some snap \<Rightarrow> if lpPool snap = poolId then Inr (Some ch) else findPoolChange side poolId rest)
      else findPoolChange side poolId rest)"
| "findPoolChange side poolId (_ # rest) = findPoolChange side poolId rest"

text \<open>
  \<^verbatim>\<open>(x.amount[i] - y.amount[i]).toString()\<close>: the operands are amount strings, so \<^verbatim>\<open>-\<close> is
  the subtraction of Numbers; an index beyond the array reads \<^verbatim>\<open>undefined\<close>, which
  \<^verbatim>\<open>ToNumber\<close> turns into NaN.
\<close>

definition ToNumberOpt :: "string option \<Rightarrow> number" where
  "ToNumberOpt v = (case v of None \<Rightarrow> NaN | Some s \<Rightarrow> ToNumber s)"

definition amountDeltas :: "string list \<Rightarrow> string list \<Rightarrow> string list \<Rightarrow> (string \<times> string) list" where
  "amountDeltas assetList minuend subtrahend =
     map (\<lambda>(i, asset').
            (asset', numberToString (numberMinus (ToNumberOpt (nthOpt minuend i))
                                                 (ToNumberOpt (nthOpt subtrahend i)))))
         (enumerate 0 assetList)"

definition liquidityPoolDeposit :: "OperationContext \<Rightarrow> EffectsAnalyzer \<Rightarrow> error + EffectsAnalyzer" where
  "liquidityPoolDeposit ctx this =
     (case findPoolChange after (liquidityPoolId ctx) (changes ctx) of
        Inl e \<Rightarrow> Inl e
      | Inr None \<Rightarrow> Inl (TypeError ''cannot destructure undefined'')
      | Inr (Some ch) \<Rightarrow>
          (case (before ch, after ch) of
             (Some b, Some a) \<Rightarrow>
               Inr (addEffect (emptyEffect\<lparr>type := liquidityPoolDeposited,
                      pool := Some (liquidityPoolId ctx),
                      assets := Some (amountDeltas (lpAsset a) (lpAmount a) (lpAmount b)),
                      shares := Some (numberToString (jsMinus (lpShares a) (lpShares b)))\<rparr>) None this)
           | _ \<Rightarrow> Inl (TypeError ''before or after is undefined'')))"

definition liquidityPoolWithdraw :: "OperationContext \<Rightarrow> EffectsAnalyzer \<Rightarrow> error + EffectsAnalyzer" where
  "liquidityPoolWithdraw ctx this =
     (case findPoolChange before (liquidityPoolId ctx) (changes ctx) of
        Inl e \<Rightarrow> Inl e
      | Inr None \<Rightarrow> Inl (TypeError ''cannot destructure undefined'')
      | Inr (Some ch) \<Rightarrow>
          (case (before ch, after ch) of
             (Some b, Some a) \<Rightarrow>
               Inr (addEffect (emptyEffect\<lparr>type := liquidityPoolWithdrew,
                      pool := Some (liquidityPoolId ctx),
                      assets := Some (amountDeltas (lpAsset b) (lpAmount b) (lpAmount a)),
                      shares := Some (numberToString (jsMinus (lpShares b) (lpShares a)))\<rparr>) None this)
           | _ \<Rightarrow> Inl (TypeError ''before or after is undefined'')))"

subsection \<open>Contracts\<close>

text \<open>
  \<^verbatim>\<open>processInstanceDataChanges\<close>: every entry of the storage before is looked up by key in
  a working copy of the storage after; the first entry found is taken out of the copy.
\<close>

fun takeByKey :: "string \<Rightarrow> (string \<times> string) list \<Rightarrow> string option \<times> (string \<times> string) list" where
  "takeByKey k [] = (None, [])"
| "takeByKey k ((k', v) # rest) =
     (if k' = k then (Some v, rest)
      else (let (found, rest') = takeByKey k rest in (found, (k', v) # rest')))"

fun instanceDataBefore ::
    "string \<Rightarrow> (string \<times> string) list \<Rightarrow> (string \<times> string) list \<Rightarrow> EffectsAnalyzer
       \<Rightarrow> (string \<times> string) list \<times> EffectsAnalyzer" where
  "instanceDataBefore own [] storageAfter this = (storageAfter, this)"
| "instanceDataBefore own ((k, v) # rest) storageAfter this =
     (case takeByKey k storageAfter of
        (None, storageAfter') \<Rightarrow>
          instanceDataBefore own rest storageAfter'
            (addEffect (emptyEffect\<lparr>type := contractDataRemoved, owner := Some own, key := Some k,
               prevValue := Some v, durability := Some ''instance''\<rparr>) None this)
      | (Some newVal, storageAfter') \<Rightarrow>
          if v = newVal then instanceDataBefore own rest storageAfter' this
          else instanceDataBefore own rest storageAfter'
                 (addEffect (emptyEffect\<lparr>type := contractDataUpdated, owner := Some own, key := Some k,
                    value' := Some newVal, prevValue := Some v, durability := Some ''instance''\<rparr>)
                    None this))"

fun instanceDataAfter :: "string \<Rightarrow> (string \<times> string) list \<Rightarrow> EffectsAnalyzer \<Rightarrow> EffectsAnalyzer" where
  "instanceDataAfter own [] this = this"
| "instanceDataAfter own ((k, v) # rest) this =
     instanceDataAfter own rest
       (addEffect (emptyEffect\<lparr>type := contractDataCreated, owner := Some own, key := Some k,
          value' := Some v, durability := Some ''instance''\<rparr>) None this)"

definition storageOrEmpty :: "(string \<times> string) list option \<Rightarrow> (string \<times> string) list" where
  "storageOrEmpty st = (case st of None \<Rightarrow> [] | Some xs \<Rightarrow> xs)"

definition processInstanceDataChanges ::
    "contractEntry \<Rightarrow> contractEntry \<Rightarrow> EffectsAnalyzer \<Rightarrow> EffectsAnalyzer" where
  "processInstanceDataChanges b a this =
     (let own = (if cContract a \<noteq> [] then cContract a else cContract b);
          (left, this') = instanceDataBefore own (storageOrEmpty (cStorage b))
                            (storageOrEmpty (cStorage a)) this
      in instanceDataAfter own left this')"

definition processContractChanges ::
    "contractEntry change \<Rightarrow> EffectsAnalyzer \<Rightarrow> error + EffectsAnalyzer" where
  "processContractChanges ch this =
     (if action ch \<noteq> ''created'' \<and> action ch \<noteq> ''updated''
      then Inl (UnexpectedTxMetaChangeError ''contract'' (action ch))
      else case after ch of
        None \<Rightarrow> Inl (TypeError ''after is undefined'')
      | Some a \<Rightarrow>
          (let effect = emptyEffect\<lparr>type := contractCreated, contract := JStr (cContract a),
                          kind := Some (cKind a), wasmHash := cHash a\<rparr>
           in if action ch = ''created'' then
                (if list_ex (\<lambda>e. contract e = JStr (cContract a)) (effects this) then Inr this
                 else Inr (addEffect effect None this))
              else
                (case before ch of
                   None \<Rightarrow> Inl (TypeError ''before is undefined'')
                 | Some b \<Rightarrow>
                     (let effect = effect\<lparr>type := contractUpdated, prevWasmHash := cHash b\<rparr>;
                          this' = (if 0 < length (storageOrEmpty (cStorage b))
                                      \<or> 0 < length (storageOrEmpty (cStorage a))
                                   then processInstanceDataChanges b a this else this)
                      in if cHash b = cHash a then Inr this'
                         else Inr (addEffect effect None this')))))"

section \<open>Address and sponsorship primitives\<close>

text \<open>
  \<^verbatim>\<open>StrKey\<close> belongs to the Stellar SDK, outside the repository; \<open>normalizeAddress\<close> takes its
  two functions as parameters: the decoder of a multiplexed address (which throws on a
  malformed one) and the encoder of an ed25519 public key.
\<close>

record StrKey =
  decodeMed25519PublicKey :: "string \<Rightarrow> error + 8 word list"
  encodeEd25519PublicKey :: "8 word list \<Rightarrow> string"

definition normalizeAddress :: "StrKey \<Rightarrow> string \<Rightarrow> error + string" where
  "normalizeAddress strKey address =
     (case address of
        [] \<Rightarrow> Inl (TypeError ''Expected ED25519 or Muxed address'')
      | prefix # _ \<Rightarrow>
          if prefix = CHR ''G'' then Inr address
          else if prefix \<noteq> CHR ''M'' then Inl (TypeError ''Expected ED25519 or Muxed address'')
          else (case decodeMed25519PublicKey strKey address of
                  Inl e \<Rightarrow> Inl e
                | Inr rawBytes \<Rightarrow> Inr (encodeEd25519PublicKey strKey (take 32 rawBytes))))"

text \<open>
  \<^verbatim>\<open>encodeSponsorshipEffectName(action, type)\<close>: the action selects the suffix or throws; the
  result is the property of \<^verbatim>\<open>effectTypes\<close> under the composed key, \<^verbatim>\<open>undefined\<close> (\<open>None\<close>)
  when the table has no such property.
\<close>

definition encodeSponsorshipEffectName :: "string \<Rightarrow> string \<Rightarrow> error + string option" where
  "encodeSponsorshipEffectName action' type' =
     (if action' = ''created'' then Inr (effectTypes (type' @ ''Sponsorship'' @ ''Created''))
      else if action' = ''updated'' then Inr (effectTypes (type' @ ''Sponsorship'' @ ''Updated''))
      else if action' = ''removed'' then Inr (effectTypes (type' @ ''Sponsorship'' @ ''Removed''))
      else Inl (UnexpectedTxMetaChangeError type' action'))"

section \<open>The event interpreter\<close>

text \<open>
  Modelled from the spec: \<^verbatim>\<open>xdrParseScVal\<close> lives in the decoder module, which is not among
  the source files. It turns a contract value into a native one: symbols, strings and
  addresses into strings, a 128-bit integer into its decimal string, a vector into an array,
  void into \<^verbatim>\<open>undefined\<close>; bytes into a contract address when the flag is set and into base64
  otherwise. Applied to a topic that is not there (\<^verbatim>\<open>topics[i]\<close> is \<^verbatim>\<open>undefined\<close>) it
  dereferences \<^verbatim>\<open>undefined\<close>, a TypeError.
\<close>

fun xdrParseScVal :: "bool \<Rightarrow> scval \<Rightarrow> jsval" where
  "xdrParseScVal treatBytesAsContractId ScvVoid = JUndefined"
| "xdrParseScVal treatBytesAsContractId (ScvI128 i) = JStr (bigIntToString i)"
| "xdrParseScVal treatBytesAsContractId (ScvSymbol s) = JStr s"
| "xdrParseScVal treatBytesAsContractId (ScvString s) = JStr s"
| "xdrParseScVal treatBytesAsContractId (ScvAddress a) = JStr a"
| "xdrParseScVal treatBytesAsContractId (ScvBytes c b) = JStr (if treatBytesAsContractId then c else b)"
| "xdrParseScVal treatBytesAsContractId (ScvVec xs) = JArr (map (xdrParseScVal False) xs)"

definition xdrParseTopic :: "bool \<Rightarrow> scval list \<Rightarrow> nat \<Rightarrow> error + jsval" where
  "xdrParseTopic treatBytesAsContractId topics i =
     (case nthOpt topics i of
        None \<Rightarrow> Inl (TypeError ''Cannot read properties of undefined'')
      | Some t \<Rightarrow> Inr (xdrParseScVal treatBytesAsContractId t))"

text \<open>The \<^verbatim>\<open>_arm\<close> of a value; the void arm has no name.\<close>

fun arm :: "scval \<Rightarrow> string option" where
  "arm ScvVoid = None"
| "arm (ScvI128 _) = Some ''i128''"
| "arm (ScvSymbol _) = Some ''sym''"
| "arm (ScvString _) = Some ''str''"
| "arm (ScvAddress _) = Some ''address''"
| "arm (ScvBytes _ _) = Some ''bytes''"
| "arm (ScvVec _) = Some ''vec''"

record ContractEventBody =
  topics :: "scval list"
  data :: scval

text \<open>
  A diagnostic event: \<open>eventType\<close> is \<^verbatim>\<open>event.type().value\<close>, \<open>contractId\<close> the contract id in
  the form \<^verbatim>\<open>StrKey.encodeContract\<close> gives it, absent (\<^verbatim>\<open>null\<close>) for an event without one.
\<close>

record DiagnosticEvent =
  inSuccessfulContractCall :: bool
  eventType :: nat
  contractId :: "string option"
  body :: ContractEventBody

definition SYSTEM :: nat where
  "SYSTEM = 0"

definition CONTRACT :: nat where
  "CONTRACT = 1"

definition DIAGNOSTIC :: nat where
  "DIAGNOSTIC = 2"

text \<open>
  The interpreter's state. A frame of the call stack is the invocation effect itself, the
  very object that sits in the effect list; the stack therefore holds the frame's index in
  the list (nothing is inserted before it while events are read), its top at the end.
\<close>

record EventsAnalyzer =
  effectAnalyzer :: EffectsAnalyzer
  callStack :: "nat list"

fun matchShape :: "scval list \<Rightarrow> string list \<Rightarrow> bool" where
  "matchShape ts [] = True"
| "matchShape ts (m # shape) =
     (let optional = (m \<noteq> [] \<and> last m = CHR ''?'');
          match = (if optional then butlast m else m)
      in case ts of
           t # ts' \<Rightarrow> if arm t \<noteq> Some match then False else matchShape ts' shape
         | [] \<Rightarrow> if \<not> optional then False else matchShape [] shape)"

definition matchEventTopicsShape :: "scval list \<Rightarrow> string list \<Rightarrow> bool" where
  "matchEventTopicsShape topics' shape =
     (if length topics' > length shape + 1 then False else matchShape (drop 1 topics') shape)"

definition processEventBodyValue :: "scval \<Rightarrow> jsval" where
  "processEventBodyValue v = (if v = ScvVoid then JUndefined else xdrParseScVal False v)"

text \<open>
  \<^verbatim>\<open>address.length === 56 && address[0] === 'C'\<close>, on whatever the decoder returned; reading
  \<^verbatim>\<open>length\<close> of \<^verbatim>\<open>undefined\<close> or \<^verbatim>\<open>null\<close> is a TypeError.
\<close>

fun isContractAddress :: "jsval \<Rightarrow> error + bool" where
  "isContractAddress JUndefined = Inl (TypeError ''Cannot read properties of undefined'')"
| "isContractAddress JNull = Inl (TypeError ''Cannot read properties of null'')"
| "isContractAddress (JStr s) = Inr (length s = 56 \<and> take 1 s = ''C'')"
| "isContractAddress (JArr xs) = Inr (length xs = 56 \<and> take 1 xs = [JStr ''C''])"

text \<open>The interpreter's own \<^verbatim>\<open>debit(from, asset, amount)\<close> and \<^verbatim>\<open>credit(to, asset, amount)\<close>.\<close>

definition eventDebit :: "jsval \<Rightarrow> jsval \<Rightarrow> jsval \<Rightarrow> EventsAnalyzer \<Rightarrow> EventsAnalyzer" where
  "eventDebit from asset' amount' this =
     this\<lparr>effectAnalyzer :=
       addEffect (emptyEffect\<lparr>type := accountDebited, source := from, asset := asset',
                    amount := amount'\<rparr>) None (effectAnalyzer this)\<rparr>"

definition eventCredit :: "jsval \<Rightarrow> jsval \<Rightarrow> jsval \<Rightarrow> EventsAnalyzer \<Rightarrow> EventsAnalyzer" where
  "eventCredit to asset' amount' this =
     this\<lparr>effectAnalyzer :=
       addEffect (emptyEffect\<lparr>type := accountCredited, source := to, asset := asset',
                    amount := amount'\<rparr>) None (effectAnalyzer this)\<rparr>"

text \<open>
  \<^verbatim>\<open>processDiagnosticEvent(body, type, contractId)\<close> returns the interpreter as the call
  left it, together with the error it threw, if any: what was appended before a
  \<^verbatim>\<open>throw\<close> stays appended. Each branch of the \<^verbatim>\<open>switch\<close> is a definition of its own.
\<close>

definition fnCallCase :: "ContractEventBody \<Rightarrow> EventsAnalyzer \<Rightarrow> error option \<times> EventsAnalyzer" where
  "fnCallCase body' this =
     (case xdrParseTopic True (topics body') 1 of
        Inl e \<Rightarrow> (Some e, this)
      | Inr c \<Rightarrow>
          (case xdrParseTopic False (topics body') 2 of
             Inl e \<Rightarrow> (Some e, this)
           | Inr f \<Rightarrow>
               (let parsedEvent = emptyEffect\<lparr>type := contractInvoked, contract := c, function' := f,
                                    args := processEventBodyValue (data body')\<rparr>;
                    parsedEvent = (if callStack this \<noteq> []
                                   then parsedEvent\<lparr>depth := Some (length (callStack this))\<rparr>
                                   else parsedEvent)
                in (None, this\<lparr>callStack := callStack this @ [length (effects (effectAnalyzer this))],
                              effectAnalyzer := addEffect parsedEvent None (effectAnalyzer this)\<rparr>))))"

definition setResult :: "nat \<Rightarrow> scval \<Rightarrow> EffectsAnalyzer \<Rightarrow> EffectsAnalyzer" where
  "setResult i r ea = ea\<lparr>effects := (effects ea)[i := (effects ea ! i)\<lparr>result := Some r\<rparr>]\<rparr>"

definition fnReturnCase ::
    "ContractEventBody \<Rightarrow> nat \<Rightarrow> EventsAnalyzer \<Rightarrow> error option \<times> EventsAnalyzer" where
  "fnReturnCase body' type' this =
     (if type' \<noteq> DIAGNOSTIC then (None, this)
      else let funcCall = (if callStack this = [] then None else Some (last (callStack this)));
               this = this\<lparr>callStack := butlast (callStack this)\<rparr>;
               result' = data body'
           in if result' \<noteq> ScvVoid
              then (case funcCall of
                      None \<Rightarrow> (Some (TypeError ''Cannot set properties of undefined''), this)
                    | Some i \<Rightarrow> (None, this\<lparr>effectAnalyzer := setResult i result' (effectAnalyzer this)\<rparr>))
              else (None, this))"

definition transferCase ::
    "ContractEventBody \<Rightarrow> jsval \<Rightarrow> EventsAnalyzer \<Rightarrow> error option \<times> EventsAnalyzer" where
  "transferCase body' asset' this =
     (case xdrParseTopic False (topics body') 1 of
        Inl e \<Rightarrow> (Some e, this)
      | Inr from \<Rightarrow>
          (case xdrParseTopic False (topics body') 2 of
             Inl e \<Rightarrow> (Some e, this)
           | Inr to \<Rightarrow>
               (let amount' = processEventBodyValue (data body')
                in case isContractAddress asset' of
                     Inl e \<Rightarrow> (Some e, this)
                   | Inr isClassicAsset \<Rightarrow>
                       (case (if \<not> isClassicAsset then Inr True else isContractAddress from) of
                          Inl e \<Rightarrow> (Some e, this)
                        | Inr doDebit \<Rightarrow>
                            (let this = (if doDebit then eventDebit from asset' amount' this else this)
                             in case (if \<not> isClassicAsset then Inr True else isContractAddress to) of
                                  Inl e \<Rightarrow> (Some e, this)
                                | Inr doCredit \<Rightarrow>
                                    (None, if doCredit then eventCredit to asset' amount' this
                                           else this))))))"

definition mintCase ::
    "ContractEventBody \<Rightarrow> jsval \<Rightarrow> EventsAnalyzer \<Rightarrow> error option \<times> EventsAnalyzer" where
  "mintCase body' asset' this =
     (if \<not> matchEventTopicsShape (topics body') [''address'', ''address'', ''str?'']
      then (Some NonStandardEvent, this)
      else case xdrParseTopic False (topics body') 1 of
             Inl e \<Rightarrow> (Some e, this)
           | Inr to \<Rightarrow>
               (let amount' = processEventBodyValue (data body');
                    this = this\<lparr>effectAnalyzer :=
                             addEffect (emptyEffect\<lparr>type := assetMinted, asset := asset',
                                          amount := amount'\<rparr>) None (effectAnalyzer this)\<rparr>
                in (None, eventCredit to asset' amount' this)))"

definition burnCase ::
    "ContractEventBody \<Rightarrow> jsval \<Rightarrow> EventsAnalyzer \<Rightarrow> error option \<times> EventsAnalyzer" where
  "burnCase body' asset' this =
     (if \<not> matchEventTopicsShape (topics body') [''address'', ''str?'']
      then (Some NonStandardEvent, this)
      else case xdrParseTopic False (topics body') 1 of
             Inl e \<Rightarrow> (Some e, this)
           | Inr from \<Rightarrow>
               (let amount' = processEventBodyValue (data body');
                    this = eventDebit from asset' amount' this
                in (None, this\<lparr>effectAnalyzer :=
                             addEffect (emptyEffect\<lparr>type := assetBurned, asset := asset',
                                          amount := amount'\<rparr>) None (effectAnalyzer this)\<rparr>)))"

text \<open>The statements after the second \<^verbatim>\<open>throw\<close> of the clawback branch are unreachable.\<close>

definition clawbackCase ::
    "ContractEventBody \<Rightarrow> jsval \<Rightarrow> EventsAnalyzer \<Rightarrow> error option \<times> EventsAnalyzer" where
  "clawbackCase body' asset' this =
     (if \<not> matchEventTopicsShape (topics body') [''address'', ''address'', ''str?'']
      then (Some NonStandardEvent, this)
      else (Some CheckStateModifications, this))"

definition processDiagnosticEvent ::
    "ContractEventBody \<Rightarrow> nat \<Rightarrow> string option \<Rightarrow> EventsAnalyzer \<Rightarrow> error option \<times> EventsAnalyzer" where
  "processDiagnosticEvent body' type' contractId' this =
     (let asset' = (case contractId' of None \<Rightarrow> JNull | Some c \<Rightarrow> JStr c)
      in case xdrParseTopic False (topics body') 0 of
           Inl e \<Rightarrow> (Some e, this)
         | Inr name \<Rightarrow>
             if name = JStr ''fn_call'' then fnCallCase body' this
             else if name = JStr ''fn_return'' then fnReturnCase body' type' this
             else if name = JStr ''transfer'' then transferCase body' asset' this
             else if name = JStr ''mint'' then mintCase body' asset' this
             else if name = JStr ''burn'' then burnCase body' asset' this
             else if name = JStr ''clawback'' then clawbackCase body' asset' this
             else (None, this))"

fun processDiagnosticEvents :: "DiagnosticEvent list \<Rightarrow> EventsAnalyzer \<Rightarrow> error option \<times> EventsAnalyzer" where
  "processDiagnosticEvents [] this = (None, this)"
| "processDiagnosticEvents (evt # rest) this =
     (if \<not> inSuccessfulContractCall evt
      then (Some (UnexpectedTxMetaChangeError ''diagnostic_event'' ''failed''), this)
      else case processDiagnosticEvent (body evt) (eventType evt) (contractId evt) this of
             (Some e, this') \<Rightarrow> (Some e, this')
           | (None, this') \<Rightarrow> processDiagnosticEvents rest this')"

definition analyzeDiagnosticEvents ::
    "DiagnosticEvent list option \<Rightarrow> EventsAnalyzer \<Rightarrow> error option \<times> EventsAnalyzer" where
  "analyzeDiagnosticEvents diagnosticEvents this =
     (case diagnosticEvents of None \<Rightarrow> (None, this) | Some evts \<Rightarrow> processDiagnosticEvents evts this)"

section \<open>Host function operations\<close>

text \<open>
  The payload of an \<^verbatim>\<open>invokeHostFunction\<close> operation, by the arm of \<^verbatim>\<open>func\<close>. What the
  handler only passes through an encoder is kept in the encoded form: the invoked contract
  address, the uploaded code as base64 with its hash in hex, the issuer, salt and asset of a
  contract id preimage. The last constructor of each type stands for an arm that the
  handler's \<^verbatim>\<open>switch\<close> does not know.
\<close>

datatype contractIdPreimage =
    ContractIdPreimageFromAddress string string
  | ContractIdPreimageFromAsset string
  | ContractIdPreimageOther string

datatype contractExecutable =
    ContractExecutableWasm string
  | ContractExecutableStellarAsset
  | ContractExecutableOther string

datatype hostFunction =
    InvokeContract string string "scval list"
  | Wasm string string
  | CreateContract contractIdPreimage contractExecutable
  | OtherHostFunction string

text \<open>
  What the handler reads of the engine besides the effect list: the operation's \<^verbatim>\<open>func\<close>,
  whether diagnostic events were supplied (\<^verbatim>\<open>this.diagnosticEvents\<close> is set only for a
  non-empty list), and the network.
\<close>

record HostFunctionContext =
  func :: hostFunction
  diagnosticEventsPresent :: bool
  network :: string

text \<open>
  \<^verbatim>\<open>invokeHostFunction()\<close>. The deriver of contract ids, \<^verbatim>\<open>contractIdFromPreimage\<close>, belongs
  to a module that is not among the source files and is a parameter. \<^verbatim>\<open>rawArgs.map(xdrParseScVal)\<close>
  hands the decoder the index of each argument as its second argument, which is truthy
  from the second argument on.
\<close>

definition invokeHostFunction ::
    "(contractIdPreimage \<Rightarrow> string \<Rightarrow> string) \<Rightarrow> HostFunctionContext \<Rightarrow> EffectsAnalyzer
       \<Rightarrow> error + EffectsAnalyzer" where
  "invokeHostFunction contractIdFromPreimage ctx this =
     (case func ctx of
        InvokeContract contractAddress functionName args' \<Rightarrow>
          if \<not> diagnosticEventsPresent ctx
          then Inr (addEffect
                 (emptyEffect\<lparr>type := contractInvoked,
                    contract := xdrParseScVal False (ScvAddress contractAddress),
                    function' := JStr functionName,
                    args := JArr (map (\<lambda>(i, v). xdrParseScVal (i \<noteq> 0) v) (enumerate 0 args')),
                    rawArgs := Some args'\<rparr>) None this)
          else Inr this
      | Wasm code codeHash \<Rightarrow>
          Inr (addEffect (emptyEffect\<lparr>type := contractCodeUploaded, wasm := Some code,
                            wasmHash := Some codeHash\<rparr>) None this)
      | CreateContract preimage executable \<Rightarrow>
          (let effect = emptyEffect\<lparr>type := contractCreated,
                          contract := JStr (contractIdFromPreimage preimage (network ctx))\<rparr>
           in case executable of
                ContractExecutableWasm codeHash \<Rightarrow>
                  Inr (addEffect (effect\<lparr>kind := Some ''wasm'', wasmHash := Some codeHash\<rparr>) None this)
              | ContractExecutableStellarAsset \<Rightarrow>
                  (case preimage of
                     ContractIdPreimageFromAddress issuer' salt' \<Rightarrow>
                       Inr (addEffect (effect\<lparr>kind := Some ''fromAddress'', issuer := Some issuer',
                                         salt := Some salt'\<rparr>) None this)
                   | ContractIdPreimageFromAsset asset' \<Rightarrow>
                       Inr (addEffect (effect\<lparr>kind := Some ''fromAsset'', asset := JStr asset'\<rparr>)
                              None this)
                   | ContractIdPreimageOther name \<Rightarrow>
                       Inl (TxMetaEffectParserError (''Unknown preimage type: '' @ name)))
              | ContractExecutableOther name \<Rightarrow>
                  Inl (TxMetaEffectParserError (''Unknown contract type: '' @ name)))
      | OtherHostFunction name \<Rightarrow>
          Inl (TxMetaEffectParserError (''Unknown host function call type: '' @ name)))"

section \<open>Concrete inputs\<close>

text \<open>Two account addresses, two contract addresses, and an engine that has emitted nothing yet.\<close>

definition accountG1 :: string where
  "accountG1 = ''GA5ZSEJYB37JRC5AVCIA5MOP4RHTM335X2KGX3IHOJAPP5RE34K4KZVN''"

definition accountG2 :: string where
  "accountG2 = ''GBBD47IF6LWK7P7MDEVSCWR7DPUWV3NY3DTQEVFL4NAT4AQH3ZLLFLA5''"

definition contractC0 :: string where
  "contractC0 = ''CCW67TSZV3SSS2HXMBQ5JFGCKJNXKZM7UQUWUZPUTHXSTZLEO7SJMI75''"

definition contractC1 :: string where
  "contractC1 = ''CAS3J7GYLGXMF6TDJBBYYSE3HQ6BBSMLNUQ34T6TZMYMW2EVH34XOWMA''"

definition emptyEngine :: EffectsAnalyzer where
  "emptyEngine = \<lparr>effects = [], opSource = accountG1\<rparr>"

definition emptyInterpreter :: EventsAnalyzer where
  "emptyInterpreter = \<lparr>effectAnalyzer = emptyEngine, callStack = []\<rparr>"

definition transferEvent :: "string \<Rightarrow> string \<Rightarrow> int \<Rightarrow> ContractEventBody" where
  "transferEvent from to n =
     \<lparr>topics = [ScvSymbol ''transfer'', ScvAddress from, ScvAddress to], data = ScvI128 n\<rparr>"

definition clawbackEvent :: ContractEventBody where
  "clawbackEvent =
     \<lparr>topics = [ScvSymbol ''clawback'', ScvAddress accountG1, ScvAddress accountG2], data = ScvI128 5\<rparr>"

text \<open>An engine that holds one credit, of an asset and a pool unrelated to what follows.\<close>

definition creditedEngine :: EffectsAnalyzer where
  "creditedEngine =
     \<lparr>effects = [emptyEffect\<lparr>type := accountCredited, source := JStr accountG2,
                    asset := JStr ''XLM'', amount := JStr ''5''\<rparr>],
      opSource = accountG1\<rparr>"

definition createdPool :: liquidityPool where
  "createdPool = \<lparr>lpPool = ''3a1f'', lpAsset = [''XLM'', ''USD-'' @ accountG2 @ ''-1''],
     lpAmount = [''0'', ''0''], lpShares = ''0'', lpAccounts = 1, lpSponsor = None\<rparr>"

text \<open>
  An operation that invokes \<^verbatim>\<open>init\<close> of the contract \<open>contractC0\<close>, without diagnostic events;
  the engine once the handler of that operation has run; and the creation of that contract.
\<close>

definition invokeInit :: HostFunctionContext where
  "invokeInit = \<lparr>func = InvokeContract contractC0 ''init'' [], diagnosticEventsPresent = False,
     network = ''Test SDF Network ; September 2015''\<rparr>"

definition invokedEngine :: EffectsAnalyzer where
  "invokedEngine =
     \<lparr>effects = [emptyEffect\<lparr>type := contractInvoked, source := JStr accountG1,
                    contract := JStr contractC0, function' := JStr ''init'', args := JArr [],
                    rawArgs := Some []\<rparr>],
      opSource = accountG1\<rparr>"

definition createdContract :: "contractEntry change" where
  "createdContract = \<lparr>action = ''created'', before = None,
     after = Some \<lparr>cContract = contractC0, cKind = ''wasm'', cHash = Some ''ab'', cStorage = None\<rparr>\<rparr>"

text \<open>The removed trustline of the spec's scenario, with balance 40.\<close>

definition removedTrustlineSnapshot :: trustline where
  "removedTrustlineSnapshot = \<lparr>tlAccount = accountG1, tlAsset = ''USD-'' @ accountG2 @ ''-1'',
     tlBalance = ''40'', tlLimit = ''1000'', tlFlags = 1, tlSponsor = None\<rparr>"

definition removedTrustline :: "trustline change" where
  "removedTrustline = \<lparr>action = ''removed'', before = Some removedTrustlineSnapshot, after = None\<rparr>"

text \<open>
  A stand-in for the SDK's \<^verbatim>\<open>StrKey\<close>: it decodes every multiplexed address to forty zero
  bytes and renders every key as one fixed account address.
\<close>

definition sampleStrKey :: StrKey where
  "sampleStrKey = \<lparr>decodeMed25519PublicKey = (\<lambda>s. Inr (replicate 40 0)),
     encodeEd25519PublicKey = (\<lambda>bs. accountG1)\<rparr>"

definition muxedM1 :: string where
  "muxedM1 = ''MA7QYNF7SOWQ3GLR2BGMZEHXAVIRZA4KVWLTJJFC7MGXUA74P7UJVAAAAAAAAAAAAAJLK''"

text \<open>The suffix that \<^verbatim>\<open>encodeSponsorshipEffectName\<close> gives each action it accepts.\<close>

definition actionKey :: "string \<Rightarrow> string option" where
  "actionKey a =
     (if a = ''created'' then Some ''Created''
      else if a = ''updated'' then Some ''Updated''
      else if a = ''removed'' then Some ''Removed''
      else None)"

text \<open>
  A pool, and two deposits into it: the one of the spec's scenario, and one into a pool
  whose first reserve stands at \<open>2^53\<close> stroops (about 900 million units) and grows by one.
\<close>

definition poolP :: string where
  "poolP = ''3a1f3a1f3a1f3a1f3a1f3a1f3a1f3a1f3a1f3a1f3a1f3a1f3a1f3a1f3a1f3a1f''"

definition assetUSD :: string where
  "assetUSD = ''USD-'' @ accountG2 @ ''-1''"

definition poolWith :: "string list \<Rightarrow> string \<Rightarrow> liquidityPool" where
  "poolWith amounts sh = \<lparr>lpPool = poolP, lpAsset = [''XLM'', assetUSD], lpAmount = amounts,
     lpShares = sh, lpAccounts = 3, lpSponsor = None\<rparr>"

definition depositOf :: "string list \<Rightarrow> string \<Rightarrow> string list \<Rightarrow> string \<Rightarrow> OperationContext" where
  "depositOf amountsBefore sharesBefore amountsAfter sharesAfter =
     \<lparr>liquidityPoolId = poolP,
      changes = [LiquidityPoolChange \<lparr>action = ''updated'',
                   before = Some (poolWith amountsBefore sharesBefore),
                   after = Some (poolWith amountsAfter sharesAfter)\<rparr>]\<rparr>"

definition scenarioDeposit :: OperationContext where
  "scenarioDeposit = depositOf [''100'', ''200''] ''1000'' [''150'', ''260''] ''1100''"

definition largeDeposit :: OperationContext where
  "largeDeposit = depositOf [''9007199254740992'', ''200''] ''1000'' [''9007199254740993'', ''260''] ''1100''"

section \<open>Well-formed diagnostic event lists\<close>

text \<open>
  The name of an event is its decoded first topic. In a list of diagnostic events every
  \<^verbatim>\<open>fn_call\<close> opens a call and every diagnostic-class \<^verbatim>\<open>fn_return\<close> closes the innermost
  open one; \<open>balanced evts d\<close> says that, starting with \<open>d\<close> open calls, no return comes
  without an open call and no call is left open at the end.
\<close>

definition eventName :: "DiagnosticEvent \<Rightarrow> error + jsval" where
  "eventName evt = xdrParseTopic False (topics (body evt)) 0"

definition isFnCall :: "DiagnosticEvent \<Rightarrow> bool" where
  "isFnCall evt = (eventName evt = Inr (JStr ''fn_call''))"

definition isDiagnosticReturn :: "DiagnosticEvent \<Rightarrow> bool" where
  "isDiagnosticReturn evt = (eventName evt = Inr (JStr ''fn_return'') \<and> eventType evt = DIAGNOSTIC)"

fun balanced :: "DiagnosticEvent list \<Rightarrow> nat \<Rightarrow> bool" where
  "balanced [] d = (d = 0)"
| "balanced (evt # rest) d =
     (if isFnCall evt then balanced rest (Suc d)
      else if isDiagnosticReturn evt then 0 < d \<and> balanced rest (d - 1)
      else balanced rest d)"

text \<open>
  A call or return event as the host emits it: inside a successful contract call, with a
  name, a call with its contract and function topics, and not one of the token events
  (whose handling is a matter of its own).
\<close>

definition isTokenEvent :: "DiagnosticEvent \<Rightarrow> bool" where
  "isTokenEvent evt =
     (eventName evt \<in> {Inr (JStr ''transfer''), Inr (JStr ''mint''), Inr (JStr ''burn''),
                       Inr (JStr ''clawback'')})"

definition callEvent :: "DiagnosticEvent \<Rightarrow> bool" where
  "callEvent evt =
     (inSuccessfulContractCall evt \<and> topics (body evt) \<noteq> [] \<and> \<not> isTokenEvent evt
      \<and> (if isFnCall evt then 3 \<le> length (topics (body evt)) else True))"

definition wellFormed :: "DiagnosticEvent list \<Rightarrow> bool" where
  "wellFormed evts = (list_all callEvent evts \<and> balanced evts 0)"

text \<open>
  The well-formed list of the spec's call-stack balance property, in the spec's own terms:
  the calls and returns that the host records are the diagnostic-class events named \<^verbatim>\<open>fn_call\<close> and \<^verbatim>\<open>fn_return\<close> (spec, glossary: a diagnostic
  event is emitted for observability, distinct from contract-level events). A list is well
  formed for the host when these are properly nested, whatever events contracts emit in
  between; \<open>hostBalanced evts d\<close> says so for a list that starts inside \<open>d\<close> open calls.
\<close>

definition isDiagnosticCall :: "DiagnosticEvent \<Rightarrow> bool" where
  "isDiagnosticCall evt = (eventName evt = Inr (JStr ''fn_call'') \<and> eventType evt = DIAGNOSTIC)"

fun hostBalanced :: "DiagnosticEvent list \<Rightarrow> nat \<Rightarrow> bool" where
  "hostBalanced [] d = (d = 0)"
| "hostBalanced (evt # rest) d =
     (if isDiagnosticCall evt then hostBalanced rest (Suc d)
      else if isDiagnosticReturn evt then 0 < d \<and> hostBalanced rest (d - 1)
      else hostBalanced rest d)"

text \<open>A top-level call of \<open>contractC0\<close> that calls \<open>contractC1\<close>; the inner call returns 7.\<close>

definition fnCallEvent :: "string \<Rightarrow> string \<Rightarrow> DiagnosticEvent" where
  "fnCallEvent c f =
     \<lparr>inSuccessfulContractCall = True, eventType = DIAGNOSTIC, contractId = None,
      body = \<lparr>topics = [ScvSymbol ''fn_call'', ScvBytes c [], ScvSymbol f], data = ScvVec []\<rparr>\<rparr>"

definition fnReturnEvent :: "string \<Rightarrow> string \<Rightarrow> scval \<Rightarrow> DiagnosticEvent" where
  "fnReturnEvent c f r =
     \<lparr>inSuccessfulContractCall = True, eventType = DIAGNOSTIC, contractId = Some c,
      body = \<lparr>topics = [ScvSymbol ''fn_return'', ScvSymbol f], data = r\<rparr>\<rparr>"

definition nestedCalls :: "DiagnosticEvent list" where
  "nestedCalls =
     [fnCallEvent contractC0 ''swap'', fnCallEvent contractC1 ''balance'',
      fnReturnEvent contractC1 ''balance'' (ScvI128 7), fnReturnEvent contractC0 ''swap'' ScvVoid]"

text \<open>
  The same calls, but before it calls \<open>contractC1\<close> the contract \<open>contractC0\<close> publishes an
  event of its own whose first topic is the symbol \<^verbatim>\<open>fn_call\<close>: a contract-class event.
\<close>

definition publishedFnCall :: DiagnosticEvent where
  "publishedFnCall =
     \<lparr>inSuccessfulContractCall = True, eventType = CONTRACT, contractId = Some contractC0,
      body = \<lparr>topics = [ScvSymbol ''fn_call'', ScvAddress accountG1, ScvSymbol ''done''],
               data = ScvI128 1\<rparr>\<rparr>"

definition nestedCallsWithPublished :: "DiagnosticEvent list" where
  "nestedCallsWithPublished =
     [fnCallEvent contractC0 ''swap'', publishedFnCall, fnCallEvent contractC1 ''balance'',
      fnReturnEvent contractC1 ''balance'' (ScvI128 7), fnReturnEvent contractC0 ''swap'' ScvVoid]"

text \<open>The mirror image of \<open>largeDeposit\<close>: the first reserve shrinks by one.\<close>

definition largeWithdraw :: OperationContext where
  "largeWithdraw = depositOf [''9007199254740993'', ''260''] ''1100'' [''9007199254740992'', ''200''] ''1000''"

text \<open>A string that passes the interpreter's test for a contract address.\<close>

definition contractAddressed :: "string \<Rightarrow> bool" where
  "contractAddressed s = (length s = 56 \<and> take 1 s = ''C'')"

section \<open>Auxiliary facts\<close>

lemma findIndex_ge: "- 1 \<le> findIndex P xs"
  by (induction xs) (auto simp: Let_def)

lemma findIndex_neg_iff: "findIndex P xs < 0 \<longleftrightarrow> \<not> list_ex P xs"
  using findIndex_ge [of P] by (induction xs) (auto simp: Let_def)

lemma addEffect_front:
  "p < 0 \<Longrightarrow> addEffect e (Some p) this =
     this\<lparr>effects := (if falsy (source e) then e\<lparr>source := JStr (opSource this)\<rparr> else e) # effects this\<rparr>"
  by (simp add: addEffect_def Let_def)

lemma addEffect_push:
  "addEffect e None this =
     this\<lparr>effects := effects this @ [if falsy (source e) then e\<lparr>source := JStr (opSource this)\<rparr> else e]\<rparr>"
  by (simp add: addEffect_def Let_def)

subsection \<open>Decimal strings\<close>

lemma digitVal_digitChar: "d < 10 \<Longrightarrow> digitVal (digitChar d) = Some d"
proof -
  assume "d < 10"
  then have "d \<in> {0, 1, 2, 3, 4, 5, 6, 7, 8, 9}" by auto
  then show ?thesis
    by (auto simp: digitVal_def digitChar_def)
qed

lemma digitChar_not_sign: "d < 10 \<Longrightarrow> digitChar d \<noteq> CHR ''-'' \<and> digitChar d \<noteq> CHR ''+''"
proof -
  assume "d < 10"
  then have "d \<in> {0, 1, 2, 3, 4, 5, 6, 7, 8, 9}" by auto
  then show ?thesis
    by (auto simp: digitChar_def)
qed

lemma digitsValue_append:
  "digitsValue acc (xs @ ys) = (case digitsValue acc xs of None \<Rightarrow> None | Some v \<Rightarrow> digitsValue v ys)"
  by (induction xs arbitrary: acc) (auto split: option.splits)

lemma digitsValue_natToString:
  "digitsValue acc (natToString n) = Some (acc * 10 ^ length (natToString n) + n)"
proof (induction n arbitrary: acc rule: natToString.induct)
  case (1 n)
  show ?case
  proof (cases "n < 10")
    case True
    then show ?thesis
      by (simp add: natToString.simps [of n] digitVal_digitChar)
  next
    case False
    have m: "n mod 10 < 10" by simp
    from False 1 [OF False, of acc] show ?thesis
      by (simp add: natToString.simps [of n] digitsValue_append digitVal_digitChar [OF m] algebra_simps)
  qed
qed

lemma natToString_nonempty: "natToString n \<noteq> []"
  by (subst natToString.simps) simp

lemma hd_natToString: "\<exists>d cs. d < 10 \<and> natToString n = digitChar d # cs"
proof (induction n rule: natToString.induct)
  case (1 n)
  show ?case
  proof (cases "n < 10")
    case True
    then show ?thesis by (auto simp: natToString.simps [of n])
  next
    case False
    from 1 [OF False] obtain d cs where "d < 10" "natToString (n div 10) = digitChar d # cs" by blast
    with False show ?thesis by (auto simp: natToString.simps [of n])
  qed
qed

lemma decimalLiteral_natToString: "decimalLiteral (natToString n) = Some (int n)"
proof -
  obtain d cs where d: "d < 10" "natToString n = digitChar d # cs"
    using hd_natToString by blast
  have "digitsValue 0 (natToString n) = Some n"
    by (simp add: digitsValue_natToString)
  with d digitChar_not_sign [OF d(1)] show ?thesis
    by (simp add: decimalLiteral_def)
qed

lemma decimalLiteral_bigIntToString: "decimalLiteral (bigIntToString i) = Some i"
proof (cases "i < 0")
  case True
  have "digitsValue 0 (natToString (nat (- i))) = Some (nat (- i))"
    by (simp add: digitsValue_natToString)
  with True show ?thesis
    by (simp add: decimalLiteral_def bigIntToString_def natToString_nonempty)
next
  case False
  then show ?thesis
    by (simp add: bigIntToString_def decimalLiteral_natToString)
qed

lemma BigInt_bigIntToString: "BigInt (bigIntToString i) = Inr i"
  by (simp add: BigInt_def decimalLiteral_bigIntToString)

lemma natToString_digit: "n < 10 \<Longrightarrow> natToString n = [digitChar n]"
  by (simp add: natToString.simps)

lemma bigIntToString_0: "bigIntToString 0 = ''0''"
  by (simp add: bigIntToString_def natToString_digit digitChar_def)

lemma bigIntToString_eq_0: "bigIntToString i = ''0'' \<longleftrightarrow> i = 0"
proof
  assume "bigIntToString i = ''0''"
  then have "decimalLiteral (bigIntToString i) = decimalLiteral (bigIntToString 0)"
    by (simp add: bigIntToString_0)
  then show "i = 0" by (simp add: decimalLiteral_bigIntToString)
qed (simp add: bigIntToString_0)

subsection \<open>Numbers\<close>

lemma bitLength_bound: "0 < n \<Longrightarrow> 2 ^ (bitLength n - 1) \<le> n"
proof (induction n rule: bitLength.induct)
  case (1 n)
  show ?case
  proof (cases "n div 2 = 0")
    case True
    with 1(2) show ?thesis by (simp add: bitLength.simps [of n] bitLength.simps [of 0])
  next
    case False
    then have pos: "0 < n div 2" by simp
    from 1(2) have n0: "n \<noteq> 0" by simp
    have "2 ^ (bitLength (n div 2) - 1) \<le> n div 2" using 1(1) [OF n0 pos] .
    moreover have "bitLength (n div 2) \<noteq> 0" using pos by (simp add: bitLength.simps [of "n div 2"])
    ultimately have "2 ^ bitLength (n div 2) \<le> 2 * (n div 2)"
      by (cases "bitLength (n div 2)") simp_all
    then show ?thesis using n0 by (simp add: bitLength.simps [of n])
  qed
qed

lemma roundDoubleNat_0: "roundDoubleNat 0 = 0"
  by (simp add: roundDoubleNat_def)

lemma roundDoubleNat_pos: "0 < n \<Longrightarrow> 0 < roundDoubleNat n"
proof -
  assume pos: "0 < n"
  show ?thesis
  proof (cases "n < 2 ^ 53")
    case True
    with pos show ?thesis by (simp add: roundDoubleNat_def)
  next
    case False
    have "2 ^ (bitLength n - 53) \<le> (2::nat) ^ (bitLength n - 1)"
      by (rule power_increasing) simp_all
    also have "\<dots> \<le> n" using bitLength_bound [OF pos] .
    finally have "0 < n div 2 ^ (bitLength n - 53)"
      by (simp add: div_greater_zero_iff)
    with False show ?thesis
      by (auto simp: roundDoubleNat_def Let_def)
  qed
qed

lemma greaterThanZero_bigIntToString: "greaterThanZero (bigIntToString i) \<longleftrightarrow> 0 < i"
proof (cases "0 < i")
  case True
  then have "0 < roundDoubleNat (nat i)" by (simp add: roundDoubleNat_pos)
  with True show ?thesis
    by (simp add: greaterThanZero_def ToNumber_def decimalLiteral_bigIntToString roundDouble_def)
next
  case False
  then show ?thesis
    by (simp add: greaterThanZero_def ToNumber_def decimalLiteral_bigIntToString roundDouble_def
        roundDoubleNat_0)
qed

lemma bitLength_upper: "n < 2 ^ bitLength n"
proof (induction n rule: bitLength.induct)
  case (1 n)
  show ?case
  proof (cases "n = 0")
    case True
    then show ?thesis by (simp add: bitLength.simps [of 0])
  next
    case False
    from 1 [OF False] have "n div 2 < 2 ^ bitLength (n div 2)" .
    then have "n < 2 * 2 ^ bitLength (n div 2)" by linarith
    with False show ?thesis by (simp add: bitLength.simps [of n])
  qed
qed

lemma bitLength_above_53: "2 ^ 53 \<le> n \<Longrightarrow> 53 < bitLength n"
proof (rule ccontr)
  assume a: "2 ^ 53 \<le> n" and "\<not> 53 < bitLength n"
  then have "bitLength n \<le> 53" by simp
  then have "(2::nat) ^ bitLength n \<le> 2 ^ 53" by (rule power_increasing) simp
  with bitLength_upper [of n] a show False by linarith
qed

lemma roundDoubleNat_large: "2 ^ 53 \<le> n \<Longrightarrow> 2 ^ 53 \<le> roundDoubleNat n"
proof -
  assume a: "2 ^ 53 \<le> n"
  then have pos: "0 < n" by (metis less_le_trans zero_less_numeral zero_less_power)
  define e where "e = bitLength n - 53"
  from bitLength_above_53 [OF a] have e: "0 < e" "bitLength n - 1 = 52 + e"
    by (simp_all add: e_def)
  have "(2::nat) ^ 52 * 2 ^ e \<le> n"
    using bitLength_bound [OF pos] e(2) by (simp add: power_add)
  then have q: "2 ^ 52 \<le> n div 2 ^ e"
    by (simp add: less_eq_div_iff_mult_less_eq)
  have "(2::nat) ^ 53 \<le> 2 ^ 52 * 2 ^ e"
    using e(1) by (cases e) simp_all
  also have "\<dots> \<le> (n div 2 ^ e) * 2 ^ e"
    using q by simp
  finally have low: "2 ^ 53 \<le> (n div 2 ^ e) * 2 ^ e" .
  have "(n div 2 ^ e) * 2 ^ e \<le> roundDoubleNat n"
    using a by (simp add: roundDoubleNat_def Let_def e_def [symmetric])
  with low show ?thesis by linarith
qed

lemma roundDoubleNat_eq_small: "v < 2 ^ 53 \<Longrightarrow> roundDoubleNat m = v \<longleftrightarrow> m = v"
proof (cases "m < 2 ^ 53")
  case True
  then show ?thesis by (simp add: roundDoubleNat_def)
next
  case False
  assume v: "v < 2 ^ 53"
  from False have "2 ^ 53 \<le> m" by simp
  then have "2 ^ 53 \<le> roundDoubleNat m" by (rule roundDoubleNat_large)
  with v False show ?thesis by auto
qed

lemma digitCandidates_small:
  assumes "v < 2 ^ 53"
  shows "digitCandidates v n k = (if 10 ^ (n - k) dvd v then [v div 10 ^ (n - k)] else [])"
proof -
  define scale :: nat where "scale = 10 ^ (n - k)"
  have sp: "0 < scale" by (simp add: scale_def)
  have hi: "(v div scale + 1) * scale \<noteq> v"
  proof -
    have "v < (v div scale + 1) * scale"
      using sp by (metis Suc_eq_plus1 dividend_less_div_times mult.commute mult_Suc)
    then show ?thesis by simp
  qed
  have lo: "v div scale * scale = v \<longleftrightarrow> scale dvd v"
    by (metis dvd_div_mult_self dvd_triv_right)
  show ?thesis
    using assms hi lo
    by (simp add: digitCandidates_def Let_def scale_def [symmetric] roundDoubleNat_eq_small)
qed

lemma shortestDigits_small:
  assumes "v < 2 ^ 53"
  shows "shortestDigits v n ks = (s, k) \<Longrightarrow> s * 10 ^ (n - k) = v"
proof (induction ks)
  case Nil
  then show ?case by simp
next
  case (Cons k' ks)
  then show ?case
    by (auto simp: digitCandidates_small [OF assms] split: if_splits)
qed

lemma natToString_times10: "0 < s \<Longrightarrow> natToString (s * 10) = natToString s @ ''0''"
  by (subst natToString.simps) (simp add: digitChar_def)

lemma natToString_shift: "0 < s \<Longrightarrow> natToString (s * 10 ^ m) = natToString s @ replicate m CHR ''0''"
proof (induction m)
  case 0
  then show ?case by simp
next
  case (Suc m)
  have "s * 10 ^ Suc m = (s * 10 ^ m) * 10" by simp
  then have "natToString (s * 10 ^ Suc m) = natToString ((s * 10 ^ m) * 10)"
    by (rule arg_cong)
  also have "\<dots> = natToString (s * 10 ^ m) @ ''0''"
    using Suc.prems by (intro natToString_times10) simp
  finally show ?case
    using Suc by (simp add: replicate_append_same)
qed

lemma length_natToString: "n < 10 ^ m \<Longrightarrow> 0 < m \<Longrightarrow> length (natToString n) \<le> m"
proof (induction n arbitrary: m rule: natToString.induct)
  case (1 n)
  show ?case
  proof (cases "n < 10")
    case True
    with 1(3) show ?thesis by (simp add: natToString.simps [of n])
  next
    case False
    from 1(3) obtain m' where m: "m = Suc m'" by (cases m) simp_all
    with False 1(2) have m'pos: "0 < m'" by (cases m') simp_all
    from 1(2) m have "n div 10 < 10 ^ m'" by (simp add: less_mult_imp_div_less mult.commute)
    from 1(1) [OF False this m'pos] False m show ?thesis
      by (simp add: natToString.simps [of n])
  qed
qed

lemma natNumberToString_small: "v < 2 ^ 53 \<Longrightarrow> natNumberToString v = natToString v"
proof (cases "v = 0")
  case True
  then show ?thesis by (simp add: natNumberToString_def natToString_digit digitChar_def)
next
  case False
  assume v: "v < 2 ^ 53"
  define n where "n = length (natToString v)"
  obtain s k where sk: "shortestDigits v n [1..<Suc n] = (s, k)" by (cases "shortestDigits v n [1..<Suc n]")
  from shortestDigits_small [OF v sk] have eq: "s * 10 ^ (n - k) = v" .
  with False have spos: "0 < s" by (cases s) simp_all
  have "v < (10::nat) ^ 21" using v by simp
  then have n21: "n \<le> 21" unfolding n_def by (rule length_natToString) simp
  have "natToString s @ replicate (n - k) CHR ''0'' = natToString v"
    using natToString_shift [OF spos, of "n - k"] eq by simp
  with False n21 sk show ?thesis
    by (simp add: natNumberToString_def Let_def n_def [symmetric])
qed

lemma numberToString_small: "\<bar>i\<bar> < 2 ^ 53 \<Longrightarrow> numberToString (Num i) = bigIntToString i"
  by (simp add: bigIntToString_def natNumberToString_small nat_less_iff abs_less_iff)

lemma roundDouble_small: "\<bar>i\<bar> < 2 ^ 53 \<Longrightarrow> roundDouble i = i"
  by (simp add: roundDouble_def roundDoubleNat_def nat_less_iff abs_less_iff)

text \<open>Below \<open>2^53\<close> the subtraction of amount strings is exact.\<close>

lemma jsMinus_exact_below_2_53:
  assumes "0 \<le> a" "a < 2 ^ 53" "0 \<le> b" "b < 2 ^ 53"
  shows "numberToString (jsMinus (bigIntToString a) (bigIntToString b)) = bigIntToString (a - b)"
proof -
  from assms have d: "\<bar>a - b\<bar> < 2 ^ 53" by (simp add: abs_less_iff)
  from assms have "\<bar>a\<bar> < 2 ^ 53" "\<bar>b\<bar> < 2 ^ 53" by simp_all
  then show ?thesis
    using d by (simp add: jsMinus_def ToNumber_def decimalLiteral_bigIntToString roundDouble_small
        numberToString_small del: numberToString.simps)
qed

lemma source_trustEffectOf: "source (trustEffectOf s) = JStr (tlAccount s)"
  by (simp add: trustEffectOf_def setSponsor_def emptyEffect_def split: option.splits)

section \<open>The effect list\<close>

text \<open>
  The engine's own \<^verbatim>\<open>debit\<close> and \<^verbatim>\<open>credit\<close>: nothing for the amount \<^verbatim>\<open>'0'\<close>, one effect at
  the end of the list for any other amount.
\<close>

lemma debit_zero: "debit ''0'' a s b this = this"
  by (simp add: debit_def)

lemma credit_zero: "credit ''0'' a s b this = this"
  by (simp add: credit_def)

lemma debit_nonzero:
  "amt \<noteq> ''0'' \<Longrightarrow> \<exists>e. effects (debit amt a s b this) = effects this @ [e]
      \<and> type e = accountDebited \<and> amount e = JStr amt"
  by (simp add: debit_def addEffect_push setBalance_def emptyEffect_def split: option.splits)

lemma credit_nonzero:
  "amt \<noteq> ''0'' \<Longrightarrow> \<exists>e. effects (credit amt a s b this) = effects this @ [e]
      \<and> type e = accountCredited \<and> amount e = JStr amt"
  by (simp add: credit_def addEffect_push setBalance_def emptyEffect_def split: option.splits)

text \<open>
  C3. Zero-amount suppression on every debit and credit path. The engine's primitives
  suppress the amount \<^verbatim>\<open>'0'\<close> (\<open>debit_zero\<close>, \<open>credit_zero\<close>), but the event interpreter's own
  \<^verbatim>\<open>debit\<close> and \<^verbatim>\<open>credit\<close> have no such guard: a transfer event of amount 0 between two
  contract addresses appends a debit and a credit of \<^verbatim>\<open>'0'\<close>, while the engine's \<^verbatim>\<open>debit\<close>
  with the same amount leaves the list as it is.
\<close>

theorem event_transfer_zero_amount_appends:
  "map (\<lambda>e. (type e, source e, amount e))
     (effects (effectAnalyzer (snd (processDiagnosticEvent (transferEvent contractC0 contractC1 0) 1
        (Some contractC0) emptyInterpreter))))
   = [(accountDebited, JStr contractC0, JStr ''0''), (accountCredited, JStr contractC1, JStr ''0'')]
   \<and> debit ''0'' contractC0 contractC0 None emptyEngine = emptyEngine"
  apply (simp add: processDiagnosticEvent_def transferEvent_def xdrParseTopic_def nthOpt_def
     transferCase_def processEventBodyValue_def bigIntToString_0 Let_def eventDebit_def eventCredit_def
     addEffect_def emptyInterpreter_def emptyEngine_def debit_def emptyEffect_def)
  apply (simp add: contractC0_def contractC1_def)
  done

text \<open>
  C10. An insertion whose position search finds nothing goes to the front: when no effect
  refers to the pool of a created liquidity pool, the pool-created effect becomes the first
  effect of the list, and when no effect matches the asset of a \<^verbatim>\<open>mint\<close> with automatic
  position lookup, the minted effect becomes the first effect of the list.
\<close>

theorem unmatched_position_inserts_at_front:
  "(\<not> list_ex (\<lambda>e. pool e = Some (lpPool a) \<or> asset e = JStr (lpPool a)) (effects this) \<longrightarrow>
      processLiquidityPoolChanges \<lparr>action = ''created'', before = b, after = Some a\<rparr> this =
        Inr (this\<lparr>effects :=
               setSponsor (lpSponsor a)
                 (emptyEffect\<lparr>type := liquidityPoolRemoved, pool := Some (lpPool a)\<rparr>)
                 \<lparr>type := liquidityPoolCreated,
                  reserves := Some (map (\<lambda>x. (x, Some ''0'')) (lpAsset a)),
                  shares := Some ''0'', accounts := Some 1, source := JStr (opSource this)\<rparr>
               # effects this\<rparr>))
   \<and> (\<not> list_ex (\<lambda>e. asset e = JStr asset' \<or>
                     (case assets e of None \<Rightarrow> False
                      | Some as \<Rightarrow> find (\<lambda>a. fst a = asset') as \<noteq> None)) (effects this) \<longrightarrow>
      mint asset' amount' True this =
        this\<lparr>effects :=
               emptyEffect\<lparr>type := assetMinted, asset := JStr asset', amount := JStr amount',
                             source := JStr (opSource this)\<rparr>
               # effects this\<rparr>)"
proof (intro conjI impI)
  assume h: "\<not> list_ex (\<lambda>e. pool e = Some (lpPool a) \<or> asset e = JStr (lpPool a)) (effects this)"
  have neg: "findIndex (\<lambda>e. pool e = Some (lpPool a) \<or> asset e = JStr (lpPool a)) (effects this) < 0"
    using h by (simp add: findIndex_neg_iff)
  have src: "falsy (source (setSponsor sp (emptyEffect\<lparr>type := t, pool := q\<rparr>)))" for sp t q
    by (simp add: setSponsor_def emptyEffect_def split: option.splits)
  have pl: "pool (setSponsor sp (emptyEffect\<lparr>type := t, pool := q\<rparr>)) = q" for sp t q
    by (simp add: setSponsor_def emptyEffect_def split: option.splits)
  show "processLiquidityPoolChanges \<lparr>action = ''created'', before = b, after = Some a\<rparr> this =
        Inr (this\<lparr>effects :=
               setSponsor (lpSponsor a)
                 (emptyEffect\<lparr>type := liquidityPoolRemoved, pool := Some (lpPool a)\<rparr>)
                 \<lparr>type := liquidityPoolCreated,
                  reserves := Some (map (\<lambda>x. (x, Some ''0'')) (lpAsset a)),
                  shares := Some ''0'', accounts := Some 1, source := JStr (opSource this)\<rparr>
               # effects this\<rparr>)"
    using neg by (simp add: processLiquidityPoolChanges_def orElse_def Let_def addEffect_front src pl)
next
  assume h: "\<not> list_ex (\<lambda>e. asset e = JStr asset' \<or>
                     (case assets e of None \<Rightarrow> False
                      | Some as \<Rightarrow> find (\<lambda>a. fst a = asset') as \<noteq> None)) (effects this)"
  have neg: "findIndex (\<lambda>e. asset e = JStr asset' \<or>
                     (case assets e of None \<Rightarrow> False
                      | Some as \<Rightarrow> find (\<lambda>a. fst a = asset') as \<noteq> None)) (effects this) < 0"
    using h by (simp add: findIndex_neg_iff)
  show "mint asset' amount' True this =
        this\<lparr>effects :=
               emptyEffect\<lparr>type := assetMinted, asset := JStr asset', amount := JStr amount',
                             source := JStr (opSource this)\<rparr>
               # effects this\<rparr>"
    using neg by (simp add: mint_def Let_def addEffect_front emptyEffect_def)
qed

theorem unmatched_position_inserts_at_front_witness:
  "\<not> list_ex (\<lambda>e. pool e = Some (lpPool createdPool) \<or> asset e = JStr (lpPool createdPool))
       (effects creditedEngine)
   \<and> (case processLiquidityPoolChanges \<lparr>action = ''created'', before = None, after = Some createdPool\<rparr>
            creditedEngine of
        Inl e \<Rightarrow> False
      | Inr r \<Rightarrow> map type (effects r) = [liquidityPoolCreated, accountCredited])
   \<and> \<not> list_ex (\<lambda>e. asset e = JStr ''USD'' \<or>
                     (case assets e of None \<Rightarrow> False
                      | Some as \<Rightarrow> find (\<lambda>a. fst a = ''USD'') as \<noteq> None)) (effects creditedEngine)
   \<and> map type (effects (mint ''USD'' ''7'' True creditedEngine)) = [assetMinted, accountCredited]"
  using unmatched_position_inserts_at_front [of createdPool creditedEngine None "''USD''" "''7''"]
  by (simp add: creditedEngine_def createdPool_def emptyEffect_def setSponsor_def)

section \<open>Ledger change classifiers\<close>

text \<open>
  C8. A removed trustline whose balance before is the decimal string of \<open>n\<close>: when \<open>n > 0\<close>
  the classifier appends a debit of that balance with resulting balance \<^verbatim>\<open>'0'\<close> and, right
  after it, the trustline-removed effect; when \<open>n\<close> is not positive it appends the
  trustline-removed effect alone.
\<close>

theorem trustline_removed_debit_then_removed:
  assumes "action ch = ''removed''" and "before ch = Some b"
    and "orElse (after ch) (before ch) = Some snapshot"
    and "tlBalance b = bigIntToString n" and "tlAccount b \<noteq> []" and "tlAccount snapshot \<noteq> []"
  shows "processTrustlineEffectsChanges ch this =
     Inr (this\<lparr>effects := effects this @
       (if 0 < n
        then [emptyEffect\<lparr>type := accountDebited, source := JStr (tlAccount b), asset := JStr (tlAsset b),
                amount := JStr (tlBalance b), balance := Some ''0''\<rparr>]
        else []) @
       [(trustEffectOf snapshot)\<lparr>type := trustlineRemoved\<rparr>]\<rparr>)"
proof (cases "0 < n")
  case True
  then have nz: "bigIntToString n \<noteq> ''0''" by (simp add: bigIntToString_eq_0)
  have z: "BigInt ''0'' = Inr 0"
    using BigInt_bigIntToString [of 0] by (simp add: bigIntToString_0)
  have pb: "processBalanceChange (tlAccount b) (tlAsset b) (bigIntToString n) ''0'' this =
      Inr (this\<lparr>effects := effects this @
        [emptyEffect\<lparr>type := accountDebited, source := JStr (tlAccount b), asset := JStr (tlAsset b),
                amount := JStr (bigIntToString n), balance := Some ''0''\<rparr>]\<rparr>)"
    using True nz assms(5)
    by (simp add: processBalanceChange_def z BigInt_bigIntToString debit_def addEffect_push
        setBalance_def emptyEffect_def)
  show ?thesis
    using True assms
    by (simp add: processTrustlineEffectsChanges_def greaterThanZero_bigIntToString pb
        addEffect_push source_trustEffectOf Let_def)
next
  case False
  then show ?thesis
    using assms
    by (simp add: processTrustlineEffectsChanges_def greaterThanZero_bigIntToString
        addEffect_push source_trustEffectOf Let_def)
qed

lemma bigIntToString_40: "bigIntToString 40 = ''40''"
  by (simp add: bigIntToString_def natToString.simps digitChar_def)

theorem trustline_removed_debit_then_removed_witness:
  "action removedTrustline = ''removed'' \<and> before removedTrustline = Some removedTrustlineSnapshot
   \<and> orElse (after removedTrustline) (before removedTrustline) = Some removedTrustlineSnapshot
   \<and> tlBalance removedTrustlineSnapshot = bigIntToString 40
   \<and> tlAccount removedTrustlineSnapshot \<noteq> []
   \<and> (case processTrustlineEffectsChanges removedTrustline emptyEngine of
        Inl e \<Rightarrow> False
      | Inr r \<Rightarrow> map (\<lambda>e. (type e, amount e, balance e)) (effects r)
                  = [(accountDebited, JStr ''40'', Some ''0''), (trustlineRemoved, JUndefined, None)])"
proof -
  have h: "action removedTrustline = ''removed''" "before removedTrustline = Some removedTrustlineSnapshot"
    "orElse (after removedTrustline) (before removedTrustline) = Some removedTrustlineSnapshot"
    "tlBalance removedTrustlineSnapshot = bigIntToString 40"
    "tlAccount removedTrustlineSnapshot \<noteq> []"
    by (simp_all add: removedTrustline_def removedTrustlineSnapshot_def orElse_def bigIntToString_40
        accountG1_def)
  show ?thesis
    using h trustline_removed_debit_then_removed [OF h(1) h(2) h(3) h(4) h(5) h(5), of emptyEngine]
    by (simp add: emptyEngine_def emptyEffect_def trustEffectOf_def setSponsor_def
        removedTrustlineSnapshot_def)
qed

text \<open>
  What the classifier does with a created contract: the effect is appended unless some
  effect already in the list carries the same contract id in its \<^verbatim>\<open>contract\<close> field. The guard
  does not look at the kind of that effect.
\<close>

lemma processContractChanges_created:
  "processContractChanges \<lparr>action = ''created'', before = b, after = Some a\<rparr> this =
     Inr (if list_ex (\<lambda>e. contract e = JStr (cContract a)) (effects this) then this
          else this\<lparr>effects := effects this @
                 [emptyEffect\<lparr>type := contractCreated, contract := JStr (cContract a),
                    kind := Some (cKind a), wasmHash := cHash a, source := JStr (opSource this)\<rparr>]\<rparr>)"
  by (simp add: processContractChanges_def Let_def addEffect_push emptyEffect_def)

lemma processContractChanges_created_fresh:
  "processContractChanges createdContract creditedEngine =
     Inr (creditedEngine\<lparr>effects := effects creditedEngine @
            [emptyEffect\<lparr>type := contractCreated, contract := JStr contractC0, kind := Some ''wasm'',
               wasmHash := Some ''ab'', source := JStr accountG1\<rparr>]\<rparr>)"
  by (simp add: processContractChanges_def createdContract_def creditedEngine_def Let_def
      addEffect_push emptyEffect_def)

text \<open>
  C5. A created contract yields a contract-created effect unless an earlier effect recorded
  the creation of that contract, and only then is it suppressed. The guard of the
  classifier, which its comment describes as skipping the creations that a top-level
  \<^verbatim>\<open>createContract\<close> call has reported, tests the contract id of the earlier effects and not
  their kind: after the handler of an operation that invokes \<open>contractC0\<close> has appended its
  invocation effect, the created entry of \<open>contractC0\<close> in the change list of the same
  operation yields nothing, although no effect in the list records a creation.
\<close>

theorem created_contract_suppressed_by_invocation:
  "invokeHostFunction contractIdFromPreimage invokeInit emptyEngine = Inr invokedEngine
   \<and> processContractChanges createdContract invokedEngine = Inr invokedEngine
   \<and> map type (effects invokedEngine) = [contractInvoked]"
  by (simp add: invokeHostFunction_def invokeInit_def emptyEngine_def invokedEngine_def
      addEffect_push processContractChanges_def createdContract_def emptyEffect_def)

section \<open>Primitives\<close>

text \<open>
  C2 as stated fails: \<^verbatim>\<open>created\<close> with the entity kind \<^verbatim>\<open>contract\<close> is outside the naming
  table, and the namer returns \<^verbatim>\<open>undefined\<close> for it instead of raising.
\<close>

theorem sponsorship_name_unmapped_kind_returns_undefined:
  "effectTypes (''contract'' @ ''Sponsorship'' @ ''Created'') = None
   \<and> encodeSponsorshipEffectName ''created'' ''contract'' = Inr None"
  by (simp add: encodeSponsorshipEffectName_def effectTypes_def effectTypeKeys_def sponsoredKinds_def)

text \<open>
  C2, amended. The namer raises exactly when the action is none of \<^verbatim>\<open>created\<close>, \<^verbatim>\<open>updated\<close>,
  \<^verbatim>\<open>removed\<close>. For these three actions it returns the table's entry under the entity kind
  followed by \<^verbatim>\<open>Sponsorship\<close> and the capitalised action: the effect kind of that name for
  the kinds the table has, \<^verbatim>\<open>undefined\<close> without an error for the others.
\<close>

theorem sponsorship_name_by_action:
  "((\<exists>e. encodeSponsorshipEffectName a t = Inl e) \<longleftrightarrow> actionKey a = None)
   \<and> (\<forall>k. actionKey a = Some k \<longrightarrow>
         encodeSponsorshipEffectName a t = Inr (effectTypes (t @ ''Sponsorship'' @ k)))
   \<and> (\<forall>k. actionKey a = Some k \<and> t \<in> set sponsoredKinds \<longrightarrow>
         encodeSponsorshipEffectName a t = Inr (Some (t @ ''Sponsorship'' @ k)))
   \<and> (\<forall>k. actionKey a = Some k \<and> t @ ''Sponsorship'' @ k \<notin> set effectTypeKeys \<longrightarrow>
         encodeSponsorshipEffectName a t = Inr None)"
proof -
  have tbl: "t \<in> set sponsoredKinds \<Longrightarrow> actionKey a = Some k \<Longrightarrow>
      effectTypes (t @ ''Sponsorship'' @ k) = Some (t @ ''Sponsorship'' @ k)" for k
    by (auto simp: effectTypes_def effectTypeKeys_def sponsoredKinds_def actionKey_def
        split: if_splits)
  show ?thesis
    using tbl
    by (auto simp: encodeSponsorshipEffectName_def actionKey_def effectTypes_def split: if_splits)
qed

theorem sponsorship_name_by_action_witness:
  "actionKey ''removed'' = Some ''Removed'' \<and> ''trustline'' \<in> set sponsoredKinds
   \<and> encodeSponsorshipEffectName ''removed'' ''trustline'' = Inr (Some ''trustlineSponsorshipRemoved'')
   \<and> actionKey ''restored'' = None
   \<and> encodeSponsorshipEffectName ''restored'' ''trustline''
       = Inl (UnexpectedTxMetaChangeError ''trustline'' ''restored'')"
  using sponsorship_name_by_action [of "''removed''" "''trustline''"]
    sponsorship_name_by_action [of "''restored''" "''trustline''"]
  by (simp add: actionKey_def sponsoredKinds_def encodeSponsorshipEffectName_def)

text \<open>
  C9. Address normalization: an address that starts with \<^verbatim>\<open>G\<close> is returned unchanged; for an
  address that starts with \<^verbatim>\<open>M\<close>, normalizing the result again gives the same outcome as
  normalizing once (the SDK renders an ed25519 key as an address that starts with \<^verbatim>\<open>G\<close>);
  any other address, the empty one included, raises the TypeError.
\<close>

theorem normalizeAddress_idempotent:
  "(take 1 a = ''G'' \<longrightarrow> normalizeAddress sk a = Inr a)
   \<and> (take 1 a = ''M'' \<and> (\<forall>bs. take 1 (encodeEd25519PublicKey sk bs) = ''G'') \<longrightarrow>
        (case normalizeAddress sk a of Inl e \<Rightarrow> Inl e | Inr c \<Rightarrow> normalizeAddress sk c)
          = normalizeAddress sk a)
   \<and> (take 1 a \<noteq> ''G'' \<and> take 1 a \<noteq> ''M'' \<longrightarrow>
        normalizeAddress sk a = Inl (TypeError ''Expected ED25519 or Muxed address''))"
proof (intro conjI impI)
  assume "take 1 a = ''G''"
  then show "normalizeAddress sk a = Inr a"
    by (cases a) (simp_all add: normalizeAddress_def)
next
  assume h: "take 1 a = ''M'' \<and> (\<forall>bs. take 1 (encodeEd25519PublicKey sk bs) = ''G'')"
  have g: "normalizeAddress sk (encodeEd25519PublicKey sk bs) = Inr (encodeEd25519PublicKey sk bs)" for bs
  proof -
    from h have "take 1 (encodeEd25519PublicKey sk bs) = ''G''" by blast
    then show ?thesis
      by (cases "encodeEd25519PublicKey sk bs") (simp_all add: normalizeAddress_def)
  qed
  have m: "normalizeAddress sk a =
      (case decodeMed25519PublicKey sk a of Inl e \<Rightarrow> Inl e
       | Inr rawBytes \<Rightarrow> Inr (encodeEd25519PublicKey sk (take 32 rawBytes)))"
    using h by (cases a) (simp_all add: normalizeAddress_def)
  show "(case normalizeAddress sk a of Inl e \<Rightarrow> Inl e | Inr c \<Rightarrow> normalizeAddress sk c)
          = normalizeAddress sk a"
    unfolding m by (cases "decodeMed25519PublicKey sk a") (simp_all add: g)
next
  assume "take 1 a \<noteq> ''G'' \<and> take 1 a \<noteq> ''M''"
  then show "normalizeAddress sk a = Inl (TypeError ''Expected ED25519 or Muxed address'')"
    by (cases a) (simp_all add: normalizeAddress_def)
qed

theorem normalizeAddress_idempotent_witness:
  "take 1 accountG1 = ''G'' \<and> normalizeAddress sampleStrKey accountG1 = Inr accountG1
   \<and> take 1 muxedM1 = ''M'' \<and> (\<forall>bs. take 1 (encodeEd25519PublicKey sampleStrKey bs) = ''G'')
   \<and> normalizeAddress sampleStrKey muxedM1 = Inr accountG1
   \<and> (case normalizeAddress sampleStrKey muxedM1 of Inl e \<Rightarrow> Inl e
        | Inr c \<Rightarrow> normalizeAddress sampleStrKey c) = normalizeAddress sampleStrKey muxedM1
   \<and> take 1 contractC0 \<noteq> ''G'' \<and> take 1 contractC0 \<noteq> ''M''
   \<and> normalizeAddress sampleStrKey contractC0 = Inl (TypeError ''Expected ED25519 or Muxed address'')"
  using normalizeAddress_idempotent [of accountG1 sampleStrKey]
    normalizeAddress_idempotent [of muxedM1 sampleStrKey]
    normalizeAddress_idempotent [of contractC0 sampleStrKey]
  by (simp add: accountG1_def muxedM1_def contractC0_def sampleStrKey_def normalizeAddress_def)

section \<open>The event interpreter\<close>

text \<open>
  What a transfer event between two addresses does: the debit and the credit are
  conditional on a contract-addressed party exactly when the asset id passes the test for
  a contract address, and unconditional for any other asset id.
\<close>

lemma transfer_event_effects:
  assumes "topics b = [ScvSymbol ''transfer'', ScvAddress f, ScvAddress t]"
  shows "processDiagnosticEvent b ty (Some c) this =
     (None,
      (if \<not> contractAddressed c \<or> contractAddressed t
       then eventCredit (JStr t) (JStr c) (processEventBodyValue (data b)) else id)
        ((if \<not> contractAddressed c \<or> contractAddressed f
          then eventDebit (JStr f) (JStr c) (processEventBodyValue (data b)) else id) this))"
  using assms
  by (simp add: processDiagnosticEvent_def xdrParseTopic_def nthOpt_def transferCase_def Let_def
      contractAddressed_def)

text \<open>
  C1. Transfer events by asset class: the claim has a contract-native asset, one whose
  identifier is a contract address, always emit both the debit and the credit. The
  interpreter does the opposite: it binds \<^verbatim>\<open>isClassicAsset\<close> to the test for a contract
  address, so a transfer of the contract asset \<open>contractC0\<close> between two accounts emits
  neither effect.
\<close>

theorem event_transfer_contract_asset_between_accounts:
  "processDiagnosticEvent (transferEvent accountG1 accountG2 100) 1 (Some contractC0) emptyInterpreter
     = (None, emptyInterpreter)"
  apply (simp add: processDiagnosticEvent_def transferEvent_def xdrParseTopic_def nthOpt_def
     transferCase_def processEventBodyValue_def Let_def)
  apply (simp add: contractC0_def accountG1_def accountG2_def)
  done

text \<open>
  C7. An event whose first topic is \<^verbatim>\<open>clawback\<close> always ends in an error, the non-standard
  event error when the topics do not have the declared shape and the not-implemented error
  otherwise, and leaves the interpreter, its effect list included, exactly as it was.
\<close>

theorem clawback_always_fails:
  assumes "xdrParseTopic False (topics b) 0 = Inr (JStr ''clawback'')"
  shows "\<exists>e. processDiagnosticEvent b ty cid this = (Some e, this)
             \<and> (e = NonStandardEvent \<or> e = CheckStateModifications)"
  using assms by (simp add: processDiagnosticEvent_def clawbackCase_def Let_def)

theorem clawback_always_fails_witness:
  "xdrParseTopic False (topics clawbackEvent) 0 = Inr (JStr ''clawback'')
   \<and> processDiagnosticEvent clawbackEvent 1 (Some contractC0) emptyInterpreter
       = (Some CheckStateModifications, emptyInterpreter)"
proof -
  have h: "xdrParseTopic False (topics clawbackEvent) 0 = Inr (JStr ''clawback'')"
    by (simp add: xdrParseTopic_def nthOpt_def clawbackEvent_def)
  have s: "matchEventTopicsShape (topics clawbackEvent) [''address'', ''address'', ''str?'']"
    by (simp add: matchEventTopicsShape_def clawbackEvent_def)
  from clawback_always_fails [OF h, of 1 "Some contractC0" emptyInterpreter] h s show ?thesis
    by (simp add: processDiagnosticEvent_def clawbackCase_def)
qed

section \<open>Liquidity pool deposits\<close>

lemma bitLength_numeral:
  "bitLength 0 = 0"
  "bitLength (Suc 0) = 1"
  "bitLength (numeral Num.One) = 1"
  "bitLength (numeral (Num.Bit0 k)) = Suc (bitLength (numeral k))"
  "bitLength (numeral (Num.Bit1 k)) = Suc (bitLength (numeral k))"
  by (simp_all add: bitLength.simps [of 0] bitLength.simps [of "Suc 0"]
      bitLength.simps [of "numeral (Num.Bit0 k)"] bitLength.simps [of "numeral (Num.Bit1 k)"]
      bitLength.simps [of 1])

lemma roundDoubleNat_small: "n < 2 ^ 53 \<Longrightarrow> roundDoubleNat n = n"
  by (simp add: roundDoubleNat_def)

lemma roundDoubleNat_above: "roundDoubleNat 9007199254740993 = 9007199254740992"
  by (simp add: roundDoubleNat_def Let_def bitLength_numeral)

lemma ToNumber_above: "ToNumber ''9007199254740993'' = Num 9007199254740992"
  by (simp add: ToNumber_def decimalLiteral_def digitVal_def roundDouble_def roundDoubleNat_above)

lemma ToNumber_at: "ToNumber ''9007199254740992'' = Num 9007199254740992"
  by (simp add: ToNumber_def decimalLiteral_def digitVal_def roundDouble_def roundDoubleNat_def
      Let_def bitLength_numeral)

lemma ToNumber_samples:
  "ToNumber ''100'' = Num 100" "ToNumber ''150'' = Num 150" "ToNumber ''200'' = Num 200"
  "ToNumber ''260'' = Num 260" "ToNumber ''1000'' = Num 1000" "ToNumber ''1100'' = Num 1100"
  by (simp_all add: ToNumber_def decimalLiteral_def digitVal_def roundDouble_def roundDoubleNat_small)

lemma natNumberToString_samples:
  "natNumberToString 0 = ''0''" "natNumberToString 50 = ''50''"
  "natNumberToString 60 = ''60''" "natNumberToString 100 = ''100''"
  by (simp_all add: natNumberToString_def natToString.simps digitChar_def Let_def upt_rec
      digitCandidates_def roundDoubleNat_small)

text \<open>The deposit of the spec's scenario: the deltas are 50 and 60, the shares 100.\<close>

lemma liquidityPoolDeposit_scenario:
  "liquidityPoolDeposit scenarioDeposit emptyEngine =
     Inr (emptyEngine\<lparr>effects :=
       [emptyEffect\<lparr>type := liquidityPoolDeposited, source := JStr accountG1, pool := Some poolP,
          assets := Some [(''XLM'', ''50''), (assetUSD, ''60'')], shares := Some ''100''\<rparr>]\<rparr>)"
  by (simp add: liquidityPoolDeposit_def scenarioDeposit_def depositOf_def poolWith_def
      amountDeltas_def nthOpt_def ToNumberOpt_def jsMinus_def ToNumber_samples roundDouble_def
      roundDoubleNat_small natNumberToString_samples addEffect_push emptyEngine_def emptyEffect_def)

lemma numberMinus_exact_below_2_53:
  assumes "0 \<le> a" "a < 2 ^ 53" "0 \<le> b" "b < 2 ^ 53"
  shows "numberToString (numberMinus (ToNumberOpt (Some (bigIntToString a)))
                                      (ToNumberOpt (Some (bigIntToString b))))
           = bigIntToString (a - b)"
  using jsMinus_exact_below_2_53 [OF assms] by (simp add: jsMinus_def ToNumberOpt_def)

lemma amountDeltas_exact_below_2_53:
  assumes "length as = length assetList" and "length bs = length assetList"
    and "\<forall>x \<in> set as \<union> set bs. 0 \<le> x \<and> x < 2 ^ 53"
  shows "amountDeltas assetList (map bigIntToString as) (map bigIntToString bs)
           = zip assetList (map (\<lambda>(a, b). bigIntToString (a - b)) (zip as bs))"
proof (rule nth_equalityI)
  show "length (amountDeltas assetList (map bigIntToString as) (map bigIntToString bs))
          = length (zip assetList (map (\<lambda>(a, b). bigIntToString (a - b)) (zip as bs)))"
    using assms by (simp add: amountDeltas_def)
next
  fix i
  assume "i < length (amountDeltas assetList (map bigIntToString as) (map bigIntToString bs))"
  then have i: "i < length assetList" by (simp add: amountDeltas_def)
  with assms have ia: "i < length as" and ib: "i < length bs" by simp_all
  then have "as ! i \<in> set as" "bs ! i \<in> set bs" by simp_all
  with assms(3) have r: "0 \<le> as ! i" "as ! i < 2 ^ 53" "0 \<le> bs ! i" "bs ! i < 2 ^ 53" by auto
  have "amountDeltas assetList (map bigIntToString as) (map bigIntToString bs) ! i
          = (assetList ! i,
             numberToString (numberMinus (ToNumberOpt (Some (bigIntToString (as ! i))))
                                         (ToNumberOpt (Some (bigIntToString (bs ! i))))))"
    using i ia ib by (simp add: amountDeltas_def nth_enumerate_eq nthOpt_def)
  also have "\<dots> = (assetList ! i, bigIntToString (as ! i - bs ! i))"
    by (simp only: numberMinus_exact_below_2_53 [OF r])
  also have "\<dots> = zip assetList (map (\<lambda>(a, b). bigIntToString (a - b)) (zip as bs)) ! i"
    using i ia ib by simp
  finally show "amountDeltas assetList (map bigIntToString as) (map bigIntToString bs) ! i
          = zip assetList (map (\<lambda>(a, b). bigIntToString (a - b)) (zip as bs)) ! i" .
qed

text \<open>
  While every reserve and the share total stay below \<open>2^53\<close>, the deposit handler reports
  the exact differences \<open>after - before\<close>.
\<close>

lemma liquidityPoolDeposit_exact_below_2_53:
  assumes "findPoolChange after (liquidityPoolId ctx) (changes ctx) = Inr (Some ch)"
    and "before ch = Some b" and "after ch = Some a"
    and "lpAmount a = map bigIntToString as" and "lpAmount b = map bigIntToString bs"
    and "length as = length (lpAsset a)" and "length bs = length (lpAsset a)"
    and "\<forall>x \<in> set as \<union> set bs. 0 \<le> x \<and> x < 2 ^ 53"
    and "lpShares a = bigIntToString sa" and "lpShares b = bigIntToString sb"
    and "0 \<le> sa" "sa < 2 ^ 53" "0 \<le> sb" "sb < 2 ^ 53"
  shows "liquidityPoolDeposit ctx this =
     Inr (this\<lparr>effects := effects this @
       [emptyEffect\<lparr>type := liquidityPoolDeposited, source := JStr (opSource this),
          pool := Some (liquidityPoolId ctx),
          assets := Some (zip (lpAsset a) (map (\<lambda>(x, y). bigIntToString (x - y)) (zip as bs))),
          shares := Some (bigIntToString (sa - sb))\<rparr>]\<rparr>)"
proof -
  have d: "amountDeltas (lpAsset a) (lpAmount a) (lpAmount b)
      = zip (lpAsset a) (map (\<lambda>(x, y). bigIntToString (x - y)) (zip as bs))"
    unfolding assms(4,5) using assms(6,7,8) by (rule amountDeltas_exact_below_2_53)
  have s: "numberToString (jsMinus (lpShares a) (lpShares b)) = bigIntToString (sa - sb)"
    unfolding assms(9,10) using assms(11-14) by (rule jsMinus_exact_below_2_53)
  show ?thesis
    by (simp add: liquidityPoolDeposit_def assms(1,2,3) d s addEffect_push emptyEffect_def)
qed

text \<open>The withdraw handler subtracts in the same way, with the same loss.\<close>

lemma liquidityPoolWithdraw_large_reserve_delta:
  "liquidityPoolWithdraw largeWithdraw emptyEngine =
     Inr (emptyEngine\<lparr>effects :=
       [emptyEffect\<lparr>type := liquidityPoolWithdrew, source := JStr accountG1, pool := Some poolP,
          assets := Some [(''XLM'', ''0''), (assetUSD, ''60'')], shares := Some ''100''\<rparr>]\<rparr>)"
  by (simp add: liquidityPoolWithdraw_def largeWithdraw_def depositOf_def poolWith_def
      amountDeltas_def nthOpt_def ToNumberOpt_def jsMinus_def ToNumber_samples ToNumber_above
      ToNumber_at roundDouble_def roundDoubleNat_small roundDoubleNat_0 natNumberToString_samples
      addEffect_push emptyEngine_def emptyEffect_def)

text \<open>
  C4. Reserve deltas in exact integer arithmetic. The handler subtracts the amount strings
  with the \<^verbatim>\<open>-\<close> of Numbers, in binary64: a first reserve that grows from 9007199254740992
  to 9007199254740993 is reported with the delta \<^verbatim>\<open>'0'\<close>, where the exact difference of the
  two amounts, as \<^verbatim>\<open>BigInt\<close> computes it, is 1.
\<close>

theorem liquidityPoolDeposit_large_reserve_delta:
  "liquidityPoolDeposit largeDeposit emptyEngine =
     Inr (emptyEngine\<lparr>effects :=
       [emptyEffect\<lparr>type := liquidityPoolDeposited, source := JStr accountG1, pool := Some poolP,
          assets := Some [(''XLM'', ''0''), (assetUSD, ''60'')], shares := Some ''100''\<rparr>]\<rparr>)
   \<and> BigInt ''9007199254740993'' = Inr 9007199254740993
   \<and> BigInt ''9007199254740992'' = Inr 9007199254740992
   \<and> bigIntToString (9007199254740993 - 9007199254740992) = ''1''"
proof (intro conjI)
  show "liquidityPoolDeposit largeDeposit emptyEngine =
     Inr (emptyEngine\<lparr>effects :=
       [emptyEffect\<lparr>type := liquidityPoolDeposited, source := JStr accountG1, pool := Some poolP,
          assets := Some [(''XLM'', ''0''), (assetUSD, ''60'')], shares := Some ''100''\<rparr>]\<rparr>)"
    by (simp add: liquidityPoolDeposit_def largeDeposit_def depositOf_def poolWith_def
        amountDeltas_def nthOpt_def ToNumberOpt_def jsMinus_def ToNumber_samples ToNumber_above
        ToNumber_at roundDouble_def roundDoubleNat_small roundDoubleNat_0 natNumberToString_samples
        addEffect_push emptyEngine_def emptyEffect_def)
  show "BigInt ''9007199254740993'' = Inr 9007199254740993"
    by (simp add: BigInt_def decimalLiteral_def digitVal_def)
  show "BigInt ''9007199254740992'' = Inr 9007199254740992"
    by (simp add: BigInt_def decimalLiteral_def digitVal_def)
  show "bigIntToString (9007199254740993 - 9007199254740992) = ''1''"
    by (simp add: bigIntToString_def natToString_digit digitChar_def)
qed

subsection \<open>The call stack\<close>

lemma callStack_eventDebit: "callStack (eventDebit f a m this) = callStack this"
  by (simp add: eventDebit_def)

lemma callStack_eventCredit: "callStack (eventCredit f a m this) = callStack this"
  by (simp add: eventCredit_def)

lemma callStack_transferCase: "callStack (snd (transferCase b a this)) = callStack this"
  by (simp add: transferCase_def Let_def callStack_eventDebit callStack_eventCredit split: sum.split)

lemma callStack_mintCase: "callStack (snd (mintCase b a this)) = callStack this"
  by (simp add: mintCase_def Let_def callStack_eventCredit split: sum.split)

lemma callStack_burnCase: "callStack (snd (burnCase b a this)) = callStack this"
  by (simp add: burnCase_def Let_def callStack_eventDebit split: sum.split)

lemma callStack_clawbackCase: "callStack (snd (clawbackCase b a this)) = callStack this"
  by (simp add: clawbackCase_def)

lemma fnCallCase_ok:
  assumes "3 \<le> length (topics b)"
  shows "\<exists>e this'. fnCallCase b this = (None, this')
         \<and> callStack this' = callStack this @ [length (effects (effectAnalyzer this))]
         \<and> effects (effectAnalyzer this') = effects (effectAnalyzer this) @ [e]
         \<and> type e = contractInvoked
         \<and> depth e = (if callStack this = [] then None else Some (length (callStack this)))"
  using assms
  by (simp add: fnCallCase_def xdrParseTopic_def nthOpt_def Let_def addEffect_push emptyEffect_def)

lemma fnCallCase_stack:
  "fst (fnCallCase b this) = None \<Longrightarrow>
     callStack (snd (fnCallCase b this)) = callStack this @ [length (effects (effectAnalyzer this))]"
  by (simp add: fnCallCase_def Let_def split: sum.splits)

lemma fnReturnCase_stack:
  "callStack (snd (fnReturnCase b DIAGNOSTIC this)) = butlast (callStack this)"
  by (simp add: fnReturnCase_def Let_def split: option.split)

lemma fnReturnCase_skip: "ty \<noteq> DIAGNOSTIC \<Longrightarrow> fnReturnCase b ty this = (None, this)"
  by (simp add: fnReturnCase_def)

lemma map_update_same: "(map f xs)[i := f (xs ! i)] = map f xs"
  by (cases "i < length xs") (simp_all add: list_update_same_conv list_update_beyond)

lemma fnReturnCase_ok:
  assumes "callStack this \<noteq> []"
  shows "\<exists>this'. fnReturnCase b DIAGNOSTIC this = (None, this')
           \<and> callStack this' = butlast (callStack this)
           \<and> map depth (effects (effectAnalyzer this')) = map depth (effects (effectAnalyzer this))"
  using assms
  by (simp add: fnReturnCase_def Let_def setResult_def map_update map_update_same)

lemma step_stack:
  assumes "processDiagnosticEvent (body evt) (eventType evt) (contractId evt) this = (None, this')"
  shows "length (callStack this') =
           (if isFnCall evt then Suc (length (callStack this))
            else if isDiagnosticReturn evt then length (callStack this) - 1
            else length (callStack this))"
proof (cases "eventName evt")
  case (Inl e)
  with assms show ?thesis
    by (simp add: processDiagnosticEvent_def eventName_def)
next
  case (Inr name)
  consider "name = JStr ''fn_call''" | "name = JStr ''fn_return''" | "name = JStr ''transfer''"
    | "name = JStr ''mint''" | "name = JStr ''burn''" | "name = JStr ''clawback''"
    | "name \<noteq> JStr ''fn_call'' \<and> name \<noteq> JStr ''fn_return'' \<and> name \<noteq> JStr ''transfer''
       \<and> name \<noteq> JStr ''mint'' \<and> name \<noteq> JStr ''burn'' \<and> name \<noteq> JStr ''clawback''"
    by argo
  then show ?thesis
  proof cases
    case 1
    with Inr assms have "fnCallCase (body evt) this = (None, this')"
      by (simp add: processDiagnosticEvent_def eventName_def)
    with fnCallCase_stack [of "body evt" this] 1 Inr show ?thesis
      by (simp add: isFnCall_def)
  next
    case 2
    with Inr assms have r: "fnReturnCase (body evt) (eventType evt) this = (None, this')"
      by (simp add: processDiagnosticEvent_def eventName_def)
    show ?thesis
    proof (cases "eventType evt = DIAGNOSTIC")
      case True
      with r fnReturnCase_stack [of "body evt" this] 2 Inr show ?thesis
        by (simp add: isFnCall_def isDiagnosticReturn_def)
    next
      case False
      with r fnReturnCase_skip [OF False, of "body evt" this] 2 Inr show ?thesis
        by (simp add: isFnCall_def isDiagnosticReturn_def)
    qed
  next
    case 3
    with Inr assms have eq: "transferCase (body evt)
        (case contractId evt of None \<Rightarrow> JNull | Some c \<Rightarrow> JStr c) this = (None, this')"
      by (simp add: processDiagnosticEvent_def eventName_def)
    have "callStack this' = callStack this"
      using callStack_transferCase [of "body evt" "case contractId evt of None \<Rightarrow> JNull | Some c \<Rightarrow> JStr c" this]
      by (simp add: eq)
    with 3 Inr show ?thesis
      by (simp add: isFnCall_def isDiagnosticReturn_def)
  next
    case 4
    with Inr assms have eq: "mintCase (body evt)
        (case contractId evt of None \<Rightarrow> JNull | Some c \<Rightarrow> JStr c) this = (None, this')"
      by (simp add: processDiagnosticEvent_def eventName_def)
    have "callStack this' = callStack this"
      using callStack_mintCase [of "body evt" "case contractId evt of None \<Rightarrow> JNull | Some c \<Rightarrow> JStr c" this]
      by (simp add: eq)
    with 4 Inr show ?thesis
      by (simp add: isFnCall_def isDiagnosticReturn_def)
  next
    case 5
    with Inr assms have eq: "burnCase (body evt)
        (case contractId evt of None \<Rightarrow> JNull | Some c \<Rightarrow> JStr c) this = (None, this')"
      by (simp add: processDiagnosticEvent_def eventName_def)
    have "callStack this' = callStack this"
      using callStack_burnCase [of "body evt" "case contractId evt of None \<Rightarrow> JNull | Some c \<Rightarrow> JStr c" this]
      by (simp add: eq)
    with 5 Inr show ?thesis
      by (simp add: isFnCall_def isDiagnosticReturn_def)
  next
    case 6
    with Inr assms have eq: "clawbackCase (body evt)
        (case contractId evt of None \<Rightarrow> JNull | Some c \<Rightarrow> JStr c) this = (None, this')"
      by (simp add: processDiagnosticEvent_def eventName_def)
    have "callStack this' = callStack this"
      using callStack_clawbackCase [of "body evt" "case contractId evt of None \<Rightarrow> JNull | Some c \<Rightarrow> JStr c" this]
      by (simp add: eq)
    with 6 Inr show ?thesis
      by (simp add: isFnCall_def isDiagnosticReturn_def)
  next
    case 7
    with Inr assms show ?thesis
      by (simp add: processDiagnosticEvent_def eventName_def isFnCall_def isDiagnosticReturn_def)
  qed
qed

lemma balanced_run:
  "balanced evts (length (callStack this)) \<Longrightarrow> processDiagnosticEvents evts this = (None, this')
     \<Longrightarrow> callStack this' = []"
proof (induction evts arbitrary: this)
  case Nil
  then show ?case by simp
next
  case (Cons evt rest)
  from Cons.prems(2) obtain mid where
    step: "processDiagnosticEvent (body evt) (eventType evt) (contractId evt) this = (None, mid)"
    and run: "processDiagnosticEvents rest mid = (None, this')"
    by (auto split: if_splits prod.splits option.splits)
  from Cons.prems(1) step_stack [OF step] have "balanced rest (length (callStack mid))"
    by (auto split: if_splits)
  from Cons.IH [OF this run] show ?case .
qed

lemma callEvent_step:
  assumes "callEvent evt" and "isDiagnosticReturn evt \<longrightarrow> callStack this \<noteq> []"
  shows "\<exists>this'. processDiagnosticEvent (body evt) (eventType evt) (contractId evt) this = (None, this')"
proof -
  from assms(1) obtain t ts where ts: "topics (body evt) = t # ts"
    by (cases "topics (body evt)") (auto simp: callEvent_def)
  then have name: "eventName evt = Inr (xdrParseScVal False t)"
    by (simp add: eventName_def xdrParseTopic_def nthOpt_def)
  show ?thesis
  proof (cases "isFnCall evt")
    case True
    with assms(1) have "3 \<le> length (topics (body evt))" by (simp add: callEvent_def)
    from fnCallCase_ok [OF this, of this] True name show ?thesis
      by (auto simp: processDiagnosticEvent_def isFnCall_def eventName_def)
  next
    case notCall: False
    show ?thesis
    proof (cases "eventName evt = Inr (JStr ''fn_return'')")
      case True
      show ?thesis
      proof (cases "eventType evt = DIAGNOSTIC")
        case d: True
        with True assms(2) have "callStack this \<noteq> []" by (simp add: isDiagnosticReturn_def)
        from fnReturnCase_ok [OF this, of "body evt"] True d show ?thesis
          by (auto simp: processDiagnosticEvent_def eventName_def)
      next
        case False
        from fnReturnCase_skip [OF False, of "body evt" this] True show ?thesis
          by (auto simp: processDiagnosticEvent_def eventName_def)
      qed
    next
      case False
      with notCall assms(1) name show ?thesis
        by (auto simp: processDiagnosticEvent_def eventName_def isFnCall_def callEvent_def
            isTokenEvent_def)
    qed
  qed
qed

lemma callEvents_run:
  "list_all callEvent evts \<Longrightarrow> balanced evts (length (callStack this))
     \<Longrightarrow> \<exists>this'. processDiagnosticEvents evts this = (None, this')"
proof (induction evts arbitrary: this)
  case Nil
  then show ?case by simp
next
  case (Cons evt rest)
  from Cons.prems have ce: "callEvent evt" and rest: "list_all callEvent rest" by simp_all
  from Cons.prems(2) have "isDiagnosticReturn evt \<longrightarrow> callStack this \<noteq> []"
    by (auto simp: isDiagnosticReturn_def isFnCall_def split: if_splits)
  from callEvent_step [OF ce this] obtain mid where
    step: "processDiagnosticEvent (body evt) (eventType evt) (contractId evt) this = (None, mid)"
    by blast
  from Cons.prems(2) step_stack [OF step] have "balanced rest (length (callStack mid))"
    by (auto split: if_splits)
  from Cons.IH [OF rest this] obtain this' where "processDiagnosticEvents rest mid = (None, this')"
    by blast
  with step ce show ?case
    by (auto simp: callEvent_def)
qed

text \<open>
  What the interpreter does with calls and returns. An event named \<^verbatim>\<open>fn_call\<close>, of whatever
  class, that has its contract and function topics pushes one frame and appends one
  invocation effect, whose depth is absent when the call stack was empty and is the size of
  the stack before the push otherwise. A diagnostic-class \<^verbatim>\<open>fn_return\<close> on a non-empty
  stack pops the top frame and neither adds an effect nor changes a depth. A list in which
  the events named \<^verbatim>\<open>fn_call\<close> and the diagnostic-class returns are balanced leaves the call
  stack empty whenever the interpreter gets through it, and it does get through such a list
  of call and return events.
\<close>

lemma call_stack_discipline:
  "(isFnCall evt \<and> 3 \<le> length (topics (body evt)) \<longrightarrow>
      (\<exists>e this'. processDiagnosticEvent (body evt) (eventType evt) (contractId evt) this = (None, this')
            \<and> callStack this' = callStack this @ [length (effects (effectAnalyzer this))]
            \<and> effects (effectAnalyzer this') = effects (effectAnalyzer this) @ [e]
            \<and> type e = contractInvoked
            \<and> depth e = (if callStack this = [] then None else Some (length (callStack this)))))
   \<and> (isDiagnosticReturn evt \<and> callStack this \<noteq> [] \<longrightarrow>
      (\<exists>this'. processDiagnosticEvent (body evt) (eventType evt) (contractId evt) this = (None, this')
            \<and> callStack this' = butlast (callStack this)
            \<and> map depth (effects (effectAnalyzer this')) = map depth (effects (effectAnalyzer this))))
   \<and> (balanced evts 0 \<and> callStack this = [] \<longrightarrow>
      (\<forall>this'. processDiagnosticEvents evts this = (None, this') \<longrightarrow> callStack this' = []))
   \<and> (wellFormed evts \<and> callStack this = [] \<longrightarrow>
      (\<exists>this'. processDiagnosticEvents evts this = (None, this') \<and> callStack this' = []))"
proof (intro conjI impI)
  assume h: "isFnCall evt \<and> 3 \<le> length (topics (body evt))"
  then have "3 \<le> length (topics (body evt))" by simp
  from fnCallCase_ok [OF this, of this] h
  show "\<exists>e this'. processDiagnosticEvent (body evt) (eventType evt) (contractId evt) this = (None, this')
            \<and> callStack this' = callStack this @ [length (effects (effectAnalyzer this))]
            \<and> effects (effectAnalyzer this') = effects (effectAnalyzer this) @ [e]
            \<and> type e = contractInvoked
            \<and> depth e = (if callStack this = [] then None else Some (length (callStack this)))"
    by (simp add: processDiagnosticEvent_def isFnCall_def eventName_def)
next
  assume h: "isDiagnosticReturn evt \<and> callStack this \<noteq> []"
  then have "callStack this \<noteq> []" by simp
  from fnReturnCase_ok [OF this, of "body evt"] h
  show "\<exists>this'. processDiagnosticEvent (body evt) (eventType evt) (contractId evt) this = (None, this')
            \<and> callStack this' = butlast (callStack this)
            \<and> map depth (effects (effectAnalyzer this')) = map depth (effects (effectAnalyzer this))"
    by (simp add: processDiagnosticEvent_def isDiagnosticReturn_def eventName_def)
next
  assume h: "balanced evts 0 \<and> callStack this = []"
  then have "balanced evts (length (callStack this))" by simp
  then show "\<forall>this'. processDiagnosticEvents evts this = (None, this') \<longrightarrow> callStack this' = []"
    using balanced_run by blast
next
  assume h: "wellFormed evts \<and> callStack this = []"
  then have b: "balanced evts (length (callStack this))" and c: "list_all callEvent evts"
    by (simp_all add: wellFormed_def)
  from callEvents_run [OF c b] obtain this' where r: "processDiagnosticEvents evts this = (None, this')"
    by blast
  from balanced_run [OF b r] r
  show "\<exists>this'. processDiagnosticEvents evts this = (None, this') \<and> callStack this' = []"
    by blast
qed

lemma nestedCalls_wellFormed: "wellFormed nestedCalls"
  by (simp add: wellFormed_def nestedCalls_def callEvent_def isFnCall_def isDiagnosticReturn_def
      isTokenEvent_def eventName_def fnCallEvent_def fnReturnEvent_def xdrParseTopic_def nthOpt_def)

text \<open>The nested calls in full: depths, results, and the stack at the end.\<close>

lemma nestedCalls_run:
  "\<exists>this'. processDiagnosticEvents nestedCalls emptyInterpreter = (None, this')
     \<and> callStack this' = []
     \<and> map (\<lambda>e. (type e, contract e, depth e, result e)) (effects (effectAnalyzer this'))
         = [(contractInvoked, JStr contractC0, None, None),
            (contractInvoked, JStr contractC1, Some 1, Some (ScvI128 7))]"
  by (simp add: nestedCalls_def fnCallEvent_def fnReturnEvent_def processDiagnosticEvent_def
      xdrParseTopic_def nthOpt_def fnCallCase_def fnReturnCase_def Let_def addEffect_push
      setResult_def emptyInterpreter_def emptyEngine_def emptyEffect_def processEventBodyValue_def)

text \<open>
  When every event named \<^verbatim>\<open>fn_call\<close> is of the diagnostic class, the interpreter's count of
  open calls is the host's, and a list that is well formed for the host leaves the call
  stack empty.
\<close>

lemma hostBalanced_balanced:
  "list_all (\<lambda>evt. isFnCall evt \<longrightarrow> eventType evt = DIAGNOSTIC) evts
     \<Longrightarrow> hostBalanced evts d = balanced evts d"
  by (induction evts arbitrary: d) (auto simp: isDiagnosticCall_def isFnCall_def)

lemma hostBalanced_run:
  assumes "list_all (\<lambda>evt. isFnCall evt \<longrightarrow> eventType evt = DIAGNOSTIC) evts"
    and "hostBalanced evts (length (callStack this))"
    and "processDiagnosticEvents evts this = (None, this')"
  shows "callStack this' = []"
  using assms balanced_run hostBalanced_balanced by blast

text \<open>
  C6. After a well-formed list of diagnostic events the call stack is empty, a top-level
  invocation carries no depth and a nested one carries the number of its enclosing calls.
  The \<^verbatim>\<open>fn_return\<close> branch of the interpreter skips an event that is not of the diagnostic
  class; the \<^verbatim>\<open>fn_call\<close> branch has no such test. For the list \<open>nestedCallsWithPublished\<close>,
  in which the host's calls and returns are properly nested, the event that the contract
  published under the name \<^verbatim>\<open>fn_call\<close> is taken for a call: it gets an invocation effect of
  depth 1, the call of \<open>contractC1\<close>, whose one enclosing call is that of \<open>contractC0\<close>, is
  reported at depth 2, and the frame of \<open>contractC0\<close> is still on the stack at the end.
\<close>

theorem published_fn_call_unbalances_call_stack:
  "hostBalanced nestedCallsWithPublished 0
   \<and> list_all inSuccessfulContractCall nestedCallsWithPublished
   \<and> fst (processDiagnosticEvents nestedCallsWithPublished emptyInterpreter) = None
   \<and> callStack (snd (processDiagnosticEvents nestedCallsWithPublished emptyInterpreter)) = [0]
   \<and> map (\<lambda>e. (type e, contract e, function' e, depth e))
        (effects (effectAnalyzer (snd (processDiagnosticEvents nestedCallsWithPublished
           emptyInterpreter))))
       = [(contractInvoked, JStr contractC0, JStr ''swap'', None),
          (contractInvoked, JStr accountG1, JStr ''done'', Some 1),
          (contractInvoked, JStr contractC1, JStr ''balance'', Some 2)]"
proof (intro conjI)
  show "hostBalanced nestedCallsWithPublished 0"
    by (simp add: nestedCallsWithPublished_def publishedFnCall_def fnCallEvent_def fnReturnEvent_def
        isDiagnosticCall_def isDiagnosticReturn_def eventName_def xdrParseTopic_def nthOpt_def
        CONTRACT_def DIAGNOSTIC_def)
  show "list_all inSuccessfulContractCall nestedCallsWithPublished"
    by (simp add: nestedCallsWithPublished_def publishedFnCall_def fnCallEvent_def fnReturnEvent_def)
  have run: "processDiagnosticEvents nestedCallsWithPublished emptyInterpreter =
      (None, \<lparr>effectAnalyzer = \<lparr>effects =
         [emptyEffect\<lparr>type := contractInvoked, source := JStr accountG1, contract := JStr contractC0,
            function' := JStr ''swap'', args := JArr []\<rparr>,
          emptyEffect\<lparr>type := contractInvoked, source := JStr accountG1, contract := JStr accountG1,
            function' := JStr ''done'', args := JStr ''1'', depth := Some 1\<rparr>,
          emptyEffect\<lparr>type := contractInvoked, source := JStr accountG1, contract := JStr contractC1,
            function' := JStr ''balance'', args := JArr [], depth := Some 2,
            result := Some (ScvI128 7)\<rparr>],
         opSource = accountG1\<rparr>, callStack = [0]\<rparr>)"
    by (simp add: nestedCallsWithPublished_def publishedFnCall_def fnCallEvent_def fnReturnEvent_def
        processDiagnosticEvent_def xdrParseTopic_def nthOpt_def fnCallCase_def fnReturnCase_def
        Let_def addEffect_push setResult_def emptyInterpreter_def emptyEngine_def emptyEffect_def
        processEventBodyValue_def CONTRACT_def DIAGNOSTIC_def natToString_digit digitChar_def
        bigIntToString_def)
  show "fst (processDiagnosticEvents nestedCallsWithPublished emptyInterpreter) = None"
    by (simp add: run)
  show "callStack (snd (processDiagnosticEvents nestedCallsWithPublished emptyInterpreter)) = [0]"
    by (simp add: run)
  show "map (\<lambda>e. (type e, contract e, function' e, depth e))
        (effects (effectAnalyzer (snd (processDiagnosticEvents nestedCallsWithPublished
           emptyInterpreter))))
       = [(contractInvoked, JStr contractC0, JStr ''swap'', None),
          (contractInvoked, JStr accountG1, JStr ''done'', Some 1),
          (contractInvoked, JStr contractC1, JStr ''balance'', Some 2)]"
    by (simp add: run emptyEffect_def)
qed

end
